theory Spec2Isabelle
  imports Main "HOL-Library.Word" "HOL-Library.Sublist"
begin

section \<open>COLO checkpointing (migration/colo.c): data model\<close>

text \<open>
  The development embeds \<^verbatim>\<open>src/migration/colo.c\<close>: the command channel
  (\<^verbatim>\<open>colo_put_cmd\<close>, \<^verbatim>\<open>colo_put_cmd_value\<close>, \<^verbatim>\<open>colo_get_cmd\<close>,
  \<^verbatim>\<open>colo_get_check_cmd\<close>), the primary's checkpoint transaction and phase
  (\<^verbatim>\<open>colo_do_checkpoint_transaction\<close>, \<^verbatim>\<open>colo_process_checkpoint\<close>) and the
  secondary's responder (\<^verbatim>\<open>colo_wait_handle_cmd\<close>,
  \<^verbatim>\<open>colo_process_incoming_thread\<close>).

  The C functions work on one process state through pointers and call collaborators
  that are not part of the file (the QEMUFile layer, the sized buffer, the VM run state,
  the snapshot writer). The embedding passes a record \<open>world\<close> explicitly: it holds the
  fields of \<^verbatim>\<open>MigrationState\<close> and \<^verbatim>\<open>MigrationIncomingState\<close> that the code
  touches, the objects behind the file pointers, the guest's run state, the answers the
  collaborators will give (a finite script, consumed call by call), and the log of every
  collaborator call in program order.
\<close>

type_synonym COLOMessage = "32 word"

text \<open>
  Modelled from the spec: the enumeration \<^verbatim>\<open>COLOMessage\<close> and its bound
  \<^verbatim>\<open>COLO_MESSAGE__MAX\<close> are declared in a generated header that is not among the
  sources. Section 3 of the specification names the seven commands and says that a
  command is ordinal-bounded by \<^verbatim>\<open>MAX_COMMAND\<close>; the commands are numbered
  consecutively from 0 here, and the bound is their count. An enumeration without
  negative values is an unsigned 32-bit integer for the compiler, which is what
  \<^verbatim>\<open>qemu_get_be32\<close> delivers and what the comparison \<^verbatim>\<open>cmd >= COLO_MESSAGE__MAX\<close>
  compares.
\<close>

definition COLO_MESSAGE_CHECKPOINT_READY :: COLOMessage where
  "COLO_MESSAGE_CHECKPOINT_READY = 0"

definition COLO_MESSAGE_CHECKPOINT_REQUEST :: COLOMessage where
  "COLO_MESSAGE_CHECKPOINT_REQUEST = 1"

definition COLO_MESSAGE_CHECKPOINT_REPLY :: COLOMessage where
  "COLO_MESSAGE_CHECKPOINT_REPLY = 2"

definition COLO_MESSAGE_VMSTATE_SEND :: COLOMessage where
  "COLO_MESSAGE_VMSTATE_SEND = 3"

definition COLO_MESSAGE_VMSTATE_SIZE :: COLOMessage where
  "COLO_MESSAGE_VMSTATE_SIZE = 4"

definition COLO_MESSAGE_VMSTATE_RECEIVED :: COLOMessage where
  "COLO_MESSAGE_VMSTATE_RECEIVED = 5"

definition COLO_MESSAGE_VMSTATE_LOADED :: COLOMessage where
  "COLO_MESSAGE_VMSTATE_LOADED = 6"

definition COLO_MESSAGE__MAX :: COLOMessage where
  "COLO_MESSAGE__MAX = 7"

text \<open>
  Modelled from the spec: the migration status (the specification's replication phase
  state, with \<open>NORMAL\<close>, \<open>CHECKPOINTING\<close> and \<open>COMPLETED\<close> being the code's
  \<^verbatim>\<open>MIGRATION_STATUS_ACTIVE\<close>, \<^verbatim>\<open>MIGRATION_STATUS_COLO\<close> and
  \<^verbatim>\<open>MIGRATION_STATUS_COMPLETED\<close>) and the guest's run state are enumerations
  declared outside the sources; the values the code names are kept, with the other
  values of the same enumerations that a status or run state may hold.
\<close>

datatype MigrationStatus =
    MIGRATION_STATUS_NONE
  | MIGRATION_STATUS_SETUP
  | MIGRATION_STATUS_CANCELLING
  | MIGRATION_STATUS_CANCELLED
  | MIGRATION_STATUS_ACTIVE
  | MIGRATION_STATUS_COMPLETED
  | MIGRATION_STATUS_FAILED
  | MIGRATION_STATUS_COLO

datatype RunState =
    RUN_STATE_RUNNING
  | RUN_STATE_PAUSED
  | RUN_STATE_COLO

text \<open>
  The file pointers of the code. \<open>To_dst_file\<close> is \<^verbatim>\<open>s->to_dst_file\<close>,
  \<open>From_dst_file\<close> the object \<^verbatim>\<open>s->rp_state.from_dst_file\<close> points to once the
  return path is open, \<open>Trans_file\<close> the write file \<^verbatim>\<open>trans\<close> over the staging
  buffer, \<open>From_src_file\<close> is \<^verbatim>\<open>mis->from_src_file\<close> and \<open>To_src_file\<close> the
  object behind \<^verbatim>\<open>mis->to_src_file\<close>.
\<close>

datatype fileref = To_dst_file | From_dst_file | Trans_file | From_src_file | To_src_file

datatype state_ptr = S_state | Mis_state

text \<open>
  An \<^verbatim>\<open>Error\<close> object as \<^verbatim>\<open>error_setg\<close> and \<^verbatim>\<open>error_setg_errno\<close> build it:
  the format string of the call and its arguments, in the order of the call, and the
  \<^verbatim>\<open>os_errno\<close> argument for \<^verbatim>\<open>error_setg_errno\<close>. \<open>Arg_lookup cmd\<close> stands for the
  string \<^verbatim>\<open>COLOMessage_lookup[cmd]\<close>, a generated table that is not among the sources.
\<close>

datatype fmt_arg = Arg_d COLOMessage | Arg_s string | Arg_lookup COLOMessage

datatype Error =
    Error_setg string "fmt_arg list"
  | Error_setg_errno int string "fmt_arg list"

text \<open>The log: one event for every call of a collaborator, with the arguments of the call.\<close>

datatype event =
    Put_be32 fileref "32 word"
  | Put_be64 fileref "64 word"
  | Fflush fileref
  | Get_be32 fileref
  | Fclose fileref
  | Get_return_path fileref "fileref option"
  | Set_blocking fileref bool
  | Qsb_create "bool"
  | Qsb_set_length nat
  | Qsb_put_buffer fileref "8 word list" nat
  | Qsb_free bool
  | Bufopen bool
  | Savevm_state_header fileref
  | Savevm_state_begin fileref bool bool
  | Savevm_state_complete_precopy fileref bool
  | Vm_stop_force_state RunState
  | Vm_start
  | Mutex_lock_iothread
  | Mutex_unlock_iothread
  | Migrate_set_state state_ptr MigrationStatus MigrationStatus
  | Colo_init_ram_cache int
  | Colo_release_ram_cache
  | Migration_incoming_exit_colo
  | Error_report string
  | Error_report_err Error

text \<open>
  A \<^verbatim>\<open>QEMUFile\<close>: its sticky error (a C \<^verbatim>\<open>int\<close>, so a 32-bit word that
  \<^verbatim>\<open>qemu_file_get_error\<close> reads as a signed value; 0 is no error, a failure is a
  negative errno), the bytes written into it and not flushed yet
  (kept for the buffer file only: what a channel sends is in the log), and the script of
  the transport behind it: \<open>rx\<close> lists what each coming four-byte read delivers, the
  value and the error the transport raises with it (0 for none), and \<open>flush_errs\<close> the
  error each coming flush raises (0 for none).
\<close>

record QEMUFile =
  last_error :: "32 word"
  pending :: "8 word list"
  rx :: "(32 word \<times> 32 word) list"
  flush_errs :: "32 word list"

text \<open>
  The world: \<open>state\<close>, \<open>from_dst_file\<close> (\<^verbatim>\<open>s->rp_state.from_dst_file\<close>, null or
  set), \<open>params_blk\<close> and \<open>params_shared\<close> are the fields of \<^verbatim>\<open>MigrationState\<close>;
  \<open>mis_state\<close> and \<open>to_src_file\<close> those of \<^verbatim>\<open>MigrationIncomingState\<close>; \<open>files\<close>
  and \<open>qsb\<close> are the objects behind the file pointers and the buffer pointer;
  \<open>runstate\<close> is the guest's run state; \<open>return_path_ok\<close>, \<open>qsb_create_ok\<close>,
  \<open>bufopen_ok\<close>, \<open>savevm_out\<close>, \<open>ram_cache_ret\<close> and \<open>async_state\<close> are the answers
  of the environment; \<open>trace\<close> is the log.
\<close>

record world =
  state :: MigrationStatus
  from_dst_file :: "fileref option"
  params_blk :: bool
  params_shared :: bool
  mis_state :: MigrationStatus
  to_src_file :: "fileref option"
  files :: "fileref \<Rightarrow> QEMUFile"
  qsb :: "8 word list option"
  runstate :: RunState
  return_path_ok :: bool
  qsb_create_ok :: bool
  bufopen_ok :: "bool list"
  savevm_out :: "8 word list list"
  ram_cache_ret :: "32 word"
  async_state :: "MigrationStatus option list"
  trace :: "event list"

section \<open>The collaborators\<close>

text \<open>
  Modelled from the spec: the functions of this section are the external collaborators
  of section 6 of the specification and of its out-of-scope list (the byte channel, the
  growable buffer, the guest's execution control, the snapshot serializer, the status
  bookkeeping). Their code is not among the sources. Each one logs its call; what the
  environment decides (whether an I/O operation fails, what the peer sends, whether a
  handle can be opened, what the serializer writes) is read from the script in the
  world, so a theorem about all worlds is a theorem about every behaviour of the
  environment.
\<close>

definition log_event :: "event \<Rightarrow> world \<Rightarrow> world" where
  "log_event e w = w\<lparr>trace := trace w @ [e]\<rparr>"

text \<open>
  \<^verbatim>\<open>qemu_file_set_error\<close> keeps the first error of a file; \<open>set_error\<close> is its
  effect on the file object.
\<close>

definition set_error :: "32 word \<Rightarrow> QEMUFile \<Rightarrow> QEMUFile" where
  "set_error e fl = (if last_error fl = 0 then fl\<lparr>last_error := e\<rparr> else fl)"

definition qemu_file_get_error :: "fileref \<Rightarrow> world \<Rightarrow> int" where
  "qemu_file_get_error f w = sint (last_error (files w f))"

definition qemu_put_be32 :: "fileref \<Rightarrow> 32 word \<Rightarrow> world \<Rightarrow> world" where
  "qemu_put_be32 f v w = log_event (Put_be32 f v) w"

definition qemu_put_be64 :: "fileref \<Rightarrow> 64 word \<Rightarrow> world \<Rightarrow> world" where
  "qemu_put_be64 f v w = log_event (Put_be64 f v) w"

text \<open>
  A flush hands the pending bytes to the transport, which may fail: \<open>flush_file\<close> is the
  effect on the file object. The transport of the buffer file is the staging buffer: its
  pending bytes are appended there.
\<close>

definition flush_file :: "QEMUFile \<Rightarrow> QEMUFile" where
  "flush_file fl =
     (case flush_errs fl of
        [] \<Rightarrow> fl\<lparr>pending := []\<rparr>
      | e # es \<Rightarrow> set_error e (fl\<lparr>pending := [], flush_errs := es\<rparr>))"

definition qemu_fflush :: "fileref \<Rightarrow> world \<Rightarrow> world" where
  "qemu_fflush f w =
     (log_event (Fflush f) w)
       \<lparr>qsb := (if f = Trans_file
                then map_option (\<lambda>d. d @ pending (files w f)) (qsb w)
                else qsb w),
        files := (files w)(f := flush_file (files w f))\<rparr>"

text \<open>
  A four-byte big-endian read: \<open>recv_value\<close> is the value it delivers, \<open>recv_file\<close> its
  effect on the file object. When the script of the channel is used up the peer has
  closed the connection: the read delivers 0 and raises \<^verbatim>\<open>-EIO\<close> (-5).
\<close>

definition recv_value :: "QEMUFile \<Rightarrow> 32 word" where
  "recv_value fl = (case rx fl of [] \<Rightarrow> 0 | (v, e) # r \<Rightarrow> v)"

definition recv_file :: "QEMUFile \<Rightarrow> QEMUFile" where
  "recv_file fl =
     (case rx fl of
        [] \<Rightarrow> set_error (- 5) fl
      | (v, e) # r \<Rightarrow> set_error e (fl\<lparr>rx := r\<rparr>))"

definition qemu_get_be32 :: "fileref \<Rightarrow> world \<Rightarrow> 32 word \<times> world" where
  "qemu_get_be32 f w =
     (recv_value (files w f),
      (log_event (Get_be32 f) w)\<lparr>files := (files w)(f := recv_file (files w f))\<rparr>)"

definition qemu_fclose :: "fileref \<Rightarrow> world \<Rightarrow> world" where
  "qemu_fclose f w = log_event (Fclose f) w"

text \<open>The handle \<^verbatim>\<open>qemu_file_get_return_path\<close> opens for a file, when it can.\<close>

fun return_path :: "fileref \<Rightarrow> fileref" where
  "return_path To_dst_file = From_dst_file"
| "return_path From_src_file = To_src_file"
| "return_path f = f"

definition qemu_file_get_return_path :: "fileref \<Rightarrow> world \<Rightarrow> fileref option \<times> world" where
  "qemu_file_get_return_path f w =
     (let r = (if return_path_ok w then Some (return_path f) else None)
      in (r, log_event (Get_return_path f r) w))"

definition qemu_file_set_blocking :: "fileref \<Rightarrow> bool \<Rightarrow> world \<Rightarrow> world" where
  "qemu_file_set_blocking f b w = log_event (Set_blocking f b) w"

text \<open>
  The staging buffer (\<^verbatim>\<open>QEMUSizedBuffer\<close>): \<open>qsb w\<close> is its content, \<open>None\<close> when no
  buffer is allocated. \<^verbatim>\<open>qsb_create\<close> returns whether it could allocate,
  \<^verbatim>\<open>qsb_free\<close> accepts the null pointer (its argument says whether the pointer is set).
\<close>

definition qsb_create :: "world \<Rightarrow> bool \<times> world" where
  "qsb_create w =
     (if qsb_create_ok w
      then (True, log_event (Qsb_create True) (w\<lparr>qsb := Some []\<rparr>))
      else (False, log_event (Qsb_create False) w))"

definition qsb_set_length :: "nat \<Rightarrow> world \<Rightarrow> world" where
  "qsb_set_length n w = log_event (Qsb_set_length n) (w\<lparr>qsb := map_option (take n) (qsb w)\<rparr>)"

definition qsb_data :: "world \<Rightarrow> 8 word list" where
  "qsb_data w = (case qsb w of None \<Rightarrow> [] | Some d \<Rightarrow> d)"

definition qsb_get_length :: "world \<Rightarrow> nat" where
  "qsb_get_length w = length (qsb_data w)"

definition qsb_put_buffer :: "fileref \<Rightarrow> nat \<Rightarrow> world \<Rightarrow> world" where
  "qsb_put_buffer f n w = log_event (Qsb_put_buffer f (take n (qsb_data w)) n) w"

definition qsb_free :: "bool \<Rightarrow> world \<Rightarrow> world" where
  "qsb_free b w = log_event (Qsb_free b) (if b then w\<lparr>qsb := None\<rparr> else w)"

text \<open>
  \<^verbatim>\<open>qemu_bufopen("w", buffer)\<close>: the environment decides whether the file can be
  opened (the next entry of \<open>bufopen_ok\<close>; it can when the script is used up). The new
  file is \<open>Trans_file\<close>, with nothing pending and no error.
\<close>

definition qemu_bufopen :: "world \<Rightarrow> bool \<times> world" where
  "qemu_bufopen w =
     (let ok = (case bufopen_ok w of [] \<Rightarrow> True | b # _ \<Rightarrow> b);
          w1 = w\<lparr>bufopen_ok := tl (bufopen_ok w)\<rparr>
      in if ok
         then (True, log_event (Bufopen True)
                 (w1\<lparr>files := (files w1)(Trans_file :=
                        (files w1 Trans_file)\<lparr>last_error := 0, pending := []\<rparr>)\<rparr>))
         else (False, log_event (Bufopen False) w1))"

text \<open>
  The snapshot serializer writes into the file it is given; what each call writes is the
  next entry of \<open>savevm_out\<close> (nothing when the script is used up).
\<close>

definition savevm_write :: "fileref \<Rightarrow> world \<Rightarrow> world" where
  "savevm_write f w =
     w\<lparr>savevm_out := tl (savevm_out w),
       files := (files w)(f := (files w f)
         \<lparr>pending := pending (files w f) @ (case savevm_out w of [] \<Rightarrow> [] | b # bs \<Rightarrow> b)\<rparr>)\<rparr>"

definition qemu_savevm_state_header :: "fileref \<Rightarrow> world \<Rightarrow> world" where
  "qemu_savevm_state_header f w = savevm_write f (log_event (Savevm_state_header f) w)"

definition qemu_savevm_state_begin :: "fileref \<Rightarrow> world \<Rightarrow> world" where
  "qemu_savevm_state_begin f w =
     savevm_write f (log_event (Savevm_state_begin f (params_blk w) (params_shared w)) w)"

definition qemu_savevm_state_complete_precopy :: "fileref \<Rightarrow> bool \<Rightarrow> world \<Rightarrow> world" where
  "qemu_savevm_state_complete_precopy f b w =
     savevm_write f (log_event (Savevm_state_complete_precopy f b) w)"

definition vm_stop_force_state :: "RunState \<Rightarrow> world \<Rightarrow> world" where
  "vm_stop_force_state r w = log_event (Vm_stop_force_state r) (w\<lparr>runstate := r\<rparr>)"

definition vm_start :: "world \<Rightarrow> world" where
  "vm_start w = log_event Vm_start (w\<lparr>runstate := RUN_STATE_RUNNING\<rparr>)"

definition qemu_mutex_lock_iothread :: "world \<Rightarrow> world" where
  "qemu_mutex_lock_iothread w = log_event Mutex_lock_iothread w"

definition qemu_mutex_unlock_iothread :: "world \<Rightarrow> world" where
  "qemu_mutex_unlock_iothread w = log_event Mutex_unlock_iothread w"

text \<open>\<^verbatim>\<open>migrate_set_state\<close> is a compare-and-swap on the status field it is given.\<close>

definition migrate_set_state ::
  "state_ptr \<Rightarrow> MigrationStatus \<Rightarrow> MigrationStatus \<Rightarrow> world \<Rightarrow> world" where
  "migrate_set_state p old new w =
     log_event (Migrate_set_state p old new)
       (case p of
          S_state \<Rightarrow> w\<lparr>state := (if state w = old then new else state w)\<rparr>
        | Mis_state \<Rightarrow> w\<lparr>mis_state := (if mis_state w = old then new else mis_state w)\<rparr>)"

text \<open>
  The loops test the status field at the head of every iteration. Nothing in the file
  writes it inside a loop: it changes when another thread writes it. \<open>async_state\<close> is
  the schedule of those writes, one entry per test (\<open>None\<close>: no write since the last
  test; no more writes when the schedule is used up).
\<close>

definition next_state :: "MigrationStatus \<Rightarrow> MigrationStatus option list \<Rightarrow> MigrationStatus" where
  "next_state cur sched = (case sched of Some st # r \<Rightarrow> st | _ \<Rightarrow> cur)"

definition read_state :: "state_ptr \<Rightarrow> world \<Rightarrow> MigrationStatus \<times> world" where
  "read_state p w =
     (case p of
        S_state \<Rightarrow>
          (next_state (state w) (async_state w),
           w\<lparr>state := next_state (state w) (async_state w),
             async_state := tl (async_state w)\<rparr>)
      | Mis_state \<Rightarrow>
          (next_state (mis_state w) (async_state w),
           w\<lparr>mis_state := next_state (mis_state w) (async_state w),
             async_state := tl (async_state w)\<rparr>))"

definition colo_init_ram_cache :: "world \<Rightarrow> int \<times> world" where
  "colo_init_ram_cache w =
     (sint (ram_cache_ret w), log_event (Colo_init_ram_cache (sint (ram_cache_ret w))) w)"

definition colo_release_ram_cache :: "world \<Rightarrow> world" where
  "colo_release_ram_cache w = log_event Colo_release_ram_cache w"

definition migration_incoming_exit_colo :: "world \<Rightarrow> world" where
  "migration_incoming_exit_colo w = log_event Migration_incoming_exit_colo w"

definition error_report :: "string \<Rightarrow> world \<Rightarrow> world" where
  "error_report m w = log_event (Error_report m) w"

definition error_report_err :: "Error \<Rightarrow> world \<Rightarrow> world" where
  "error_report_err e w = log_event (Error_report_err e) w"

section \<open>The command channel\<close>

text \<open>
  Every function that takes \<^verbatim>\<open>Error **errp\<close> is called with a pointer to a null
  \<^verbatim>\<open>Error *\<close> throughout the file, so the error it may set is a result: \<open>None\<close> when
  \<^verbatim>\<open>*errp\<close> is left null. The trace points (\<^verbatim>\<open>trace_colo_put_cmd\<close> and the like)
  have no effect on the state and are left out.
\<close>

text \<open>
  The code passes \<^verbatim>\<open>-ret\<close> to \<^verbatim>\<open>error_setg_errno\<close>, where \<^verbatim>\<open>ret\<close> is a C
  \<^verbatim>\<open>int\<close>. The negation is a 32-bit one: it is the mathematical negation for every
  value but \<^verbatim>\<open>INT_MIN\<close>, where it wraps around to \<^verbatim>\<open>INT_MIN\<close> again.
\<close>

definition c_int_neg :: "int \<Rightarrow> int" where
  "c_int_neg r = sint (- (word_of_int r :: 32 word))"

definition colo_put_cmd :: "fileref \<Rightarrow> COLOMessage \<Rightarrow> world \<Rightarrow> Error option \<times> world" where
  "colo_put_cmd f cmd w =
     (if cmd \<ge> COLO_MESSAGE__MAX
      then (Some (Error_setg ''%s: Invalid cmd'' [Arg_s ''colo_put_cmd'']), w)
      else
        (let w1 = qemu_fflush f (qemu_put_be32 f cmd w);
             ret = qemu_file_get_error f w1
         in if ret < 0
            then (Some (Error_setg_errno (c_int_neg ret) ''Can't put COLO command'' []), w1)
            else (None, w1)))"

definition colo_put_cmd_value ::
  "fileref \<Rightarrow> COLOMessage \<Rightarrow> 64 word \<Rightarrow> world \<Rightarrow> Error option \<times> world" where
  "colo_put_cmd_value f cmd v w =
     (case colo_put_cmd f cmd w of
        (Some local_err, w1) \<Rightarrow> (Some local_err, w1)
      | (None, w1) \<Rightarrow>
          (let w2 = qemu_fflush f (qemu_put_be64 f v w1);
               ret = qemu_file_get_error f w2
           in if ret < 0
              then (Some (Error_setg_errno (c_int_neg ret) ''Failed to send value for command:%s''
                            [Arg_lookup cmd]), w2)
              else (None, w2)))"

text \<open>\<^verbatim>\<open>colo_get_cmd\<close> returns the value it read on every path, with or without an error.\<close>

definition colo_get_cmd :: "fileref \<Rightarrow> world \<Rightarrow> COLOMessage \<times> Error option \<times> world" where
  "colo_get_cmd f w =
     (case qemu_get_be32 f w of
        (cmd, w1) \<Rightarrow>
          (let ret = qemu_file_get_error f w1
           in if ret < 0
              then (cmd, Some (Error_setg_errno (c_int_neg ret) ''Can't get COLO command'' []), w1)
              else if cmd \<ge> COLO_MESSAGE__MAX
              then (cmd, Some (Error_setg ''%s: Invalid cmd'' [Arg_s ''colo_get_cmd'']), w1)
              else (cmd, None, w1)))"

definition colo_get_check_cmd ::
  "fileref \<Rightarrow> COLOMessage \<Rightarrow> world \<Rightarrow> Error option \<times> world" where
  "colo_get_check_cmd f expect_cmd w =
     (case colo_get_cmd f w of
        (cmd, Some local_err, w1) \<Rightarrow> (Some local_err, w1)
      | (cmd, None, w1) \<Rightarrow>
          (if cmd \<noteq> expect_cmd
           then (Some (Error_setg ''Unexpected COLO command %d, expected %d''
                         [Arg_d expect_cmd, Arg_d cmd]), w1)
           else (None, w1)))"

text \<open>
  \<^verbatim>\<open>colo_wait_handle_cmd\<close> writes \<^verbatim>\<open>*checkpoint_request\<close> on two of its three
  paths. The first result is what it wrote: \<open>None\<close> when it left the variable of the
  caller as it was (which is uninitialised in the one caller).
\<close>

definition colo_wait_handle_cmd :: "fileref \<Rightarrow> world \<Rightarrow> int option \<times> Error option \<times> world" where
  "colo_wait_handle_cmd f w =
     (case colo_get_cmd f w of
        (cmd, Some local_err, w1) \<Rightarrow> (None, Some local_err, w1)
      | (cmd, None, w1) \<Rightarrow>
          (if cmd = COLO_MESSAGE_CHECKPOINT_REQUEST
           then (Some 1, None, w1)
           else (Some 0, Some (Error_setg ''Got unknown COLO command: %d'' [Arg_d cmd]), w1)))"

section \<open>The primary: one checkpoint transaction\<close>

text \<open>
  The label \<^verbatim>\<open>out\<close> of \<^verbatim>\<open>colo_do_checkpoint_transaction\<close>, with the values of
  \<^verbatim>\<open>local_err\<close>, \<^verbatim>\<open>trans\<close> (null or not) and \<^verbatim>\<open>ret\<close> at the jump.
\<close>

definition colo_do_checkpoint_transaction_out ::
  "Error option \<Rightarrow> bool \<Rightarrow> int \<Rightarrow> world \<Rightarrow> int \<times> world" where
  "colo_do_checkpoint_transaction_out local_err trans_open ret w =
     (let w1 = (case local_err of Some e \<Rightarrow> error_report_err e w | None \<Rightarrow> w);
          w2 = (if trans_open then qemu_fclose Trans_file w1 else w1)
      in (ret, w2))"

text \<open>
  The transaction is called with the return path open (\<^verbatim>\<open>colo_process_checkpoint\<close>
  leaves before its loop otherwise), so \<^verbatim>\<open>s->rp_state.from_dst_file\<close> is
  \<open>From_dst_file\<close>. The result is the \<^verbatim>\<open>int\<close> the function returns and the world it
  leaves.
\<close>

definition colo_do_checkpoint_transaction :: "world \<Rightarrow> int \<times> world" where
  "colo_do_checkpoint_transaction w =
     (case colo_put_cmd To_dst_file COLO_MESSAGE_CHECKPOINT_REQUEST w of
        (Some e, w1) \<Rightarrow> colo_do_checkpoint_transaction_out (Some e) False (- 1) w1
      | (None, w1) \<Rightarrow>
     (case colo_get_check_cmd From_dst_file COLO_MESSAGE_CHECKPOINT_REPLY w1 of
        (Some e, w2) \<Rightarrow> colo_do_checkpoint_transaction_out (Some e) False (- 1) w2
      | (None, w2) \<Rightarrow>
     (case qemu_bufopen (qsb_set_length 0 w2) of
        (False, w3) \<Rightarrow>
          colo_do_checkpoint_transaction_out None False (- 1)
            (error_report ''Open colo buffer for write failed'' w3)
      | (True, w3) \<Rightarrow>
     (let w4 = qemu_mutex_unlock_iothread
                 (vm_stop_force_state RUN_STATE_COLO (qemu_mutex_lock_iothread w3));
          w5 = w4\<lparr>params_blk := False, params_shared := False\<rparr>;
          w6 = qemu_savevm_state_header Trans_file w5;
          w7 = qemu_savevm_state_begin Trans_file w6;
          w8 = qemu_mutex_unlock_iothread
                 (qemu_savevm_state_complete_precopy Trans_file False
                    (qemu_mutex_lock_iothread w7));
          w9 = qemu_fflush Trans_file w8
      in
     (case colo_put_cmd To_dst_file COLO_MESSAGE_VMSTATE_SEND w9 of
        (Some e, w10) \<Rightarrow> colo_do_checkpoint_transaction_out (Some e) True (- 1) w10
      | (None, w10) \<Rightarrow>
     (let size = qsb_get_length w10
      in
     (case colo_put_cmd_value To_dst_file COLO_MESSAGE_VMSTATE_SIZE (of_nat size) w10 of
        (Some e, w11) \<Rightarrow> colo_do_checkpoint_transaction_out (Some e) True (- 1) w11
      | (None, w11) \<Rightarrow>
     (let w12 = qemu_fflush To_dst_file (qsb_put_buffer To_dst_file size w11);
          ret = qemu_file_get_error To_dst_file w12
      in
      if ret < 0 then colo_do_checkpoint_transaction_out None True ret w12
      else
     (case colo_get_check_cmd From_dst_file COLO_MESSAGE_VMSTATE_RECEIVED w12 of
        (Some e, w13) \<Rightarrow> colo_do_checkpoint_transaction_out (Some e) True ret w13
      | (None, w13) \<Rightarrow>
     (case colo_get_check_cmd From_dst_file COLO_MESSAGE_VMSTATE_LOADED w13 of
        (Some e, w14) \<Rightarrow> colo_do_checkpoint_transaction_out (Some e) True ret w14
      | (None, w14) \<Rightarrow>
          colo_do_checkpoint_transaction_out None True 0
            (qemu_mutex_unlock_iothread (vm_start (qemu_mutex_lock_iothread w14)))))))))))))"

section \<open>Facts about the command channel and the transaction\<close>

text \<open>
  The functions above are not unfolded all at once in a proof about a whole run: each
  call of the command channel gets a summary (what it adds to the log, what it leaves
  as it was, when it reports an error), and a run is followed call by call through the
  worlds in between.
\<close>

lemmas prim_defs =
  qemu_fflush_def qemu_put_be32_def qemu_put_be64_def qemu_get_be32_def
  qemu_file_get_error_def qsb_set_length_def qsb_get_length_def qsb_put_buffer_def
  qemu_savevm_state_header_def qemu_savevm_state_begin_def
  qemu_savevm_state_complete_precopy_def savevm_write_def
  vm_stop_force_state_def vm_start_def qemu_mutex_lock_iothread_def
  qemu_mutex_unlock_iothread_def error_report_def error_report_err_def qemu_fclose_def
  log_event_def

lemmas msg_defs =
  COLO_MESSAGE_CHECKPOINT_READY_def COLO_MESSAGE_CHECKPOINT_REQUEST_def
  COLO_MESSAGE_CHECKPOINT_REPLY_def COLO_MESSAGE_VMSTATE_SEND_def
  COLO_MESSAGE_VMSTATE_SIZE_def COLO_MESSAGE_VMSTATE_RECEIVED_def
  COLO_MESSAGE_VMSTATE_LOADED_def COLO_MESSAGE__MAX_def

text \<open>
  \<open>ctl w\<close> collects the fields that neither the command channel nor a transaction
  writes: the two status fields, the two return-path pointers and the answers of the
  environment that only a phase asks for.
\<close>

definition ctl ::
  "world \<Rightarrow> MigrationStatus \<times> fileref option \<times> MigrationStatus \<times> fileref option \<times>
     bool \<times> bool \<times> 32 word \<times> MigrationStatus option list" where
  "ctl w =
     (state w, from_dst_file w, mis_state w, to_src_file w, return_path_ok w,
      qsb_create_ok w, ram_cache_ret w, async_state w)"

lemma rx_flush_file: "rx (flush_file fl) = rx fl"
  by (simp add: flush_file_def set_error_def split: list.splits)

lemma rx_recv_file: "rx (recv_file fl) = tl (rx fl)"
  by (auto simp add: recv_file_def set_error_def split: list.splits)


lemma colo_put_cmd_D:
  "colo_put_cmd f cmd w = (r, w') \<Longrightarrow> cmd < COLO_MESSAGE__MAX \<Longrightarrow> f \<noteq> Trans_file \<Longrightarrow>
     trace w' = trace w @ [Put_be32 f cmd, Fflush f] \<and> runstate w' = runstate w \<and> ctl w' = ctl w \<and>
     qsb w' = qsb w \<and> (\<forall>g. g \<noteq> f \<longrightarrow> files w' g = files w g) \<and>
     files w' f = flush_file (files w f) \<and>
     (r = None \<longleftrightarrow> 0 \<le> sint (last_error (files w' f))) \<and>
     (r \<noteq> None \<longrightarrow>
        r = Some (Error_setg_errno (c_int_neg (sint (last_error (files w' f))))
                   ''Can't put COLO command'' []))"
  by (auto simp: colo_put_cmd_def prim_defs ctl_def Let_def split: if_splits)

lemma colo_put_cmd_value_D:
  "colo_put_cmd_value f cmd v w = (r, w') \<Longrightarrow> cmd < COLO_MESSAGE__MAX \<Longrightarrow> f \<noteq> Trans_file \<Longrightarrow>
     (if 0 \<le> sint (last_error (flush_file (files w f)))
      then trace w' = trace w @ [Put_be32 f cmd, Fflush f, Put_be64 f v, Fflush f]
      else r \<noteq> None \<and> trace w' = trace w @ [Put_be32 f cmd, Fflush f]) \<and>
     runstate w' = runstate w \<and> ctl w' = ctl w \<and>
     qsb w' = qsb w \<and> (\<forall>g. g \<noteq> f \<longrightarrow> files w' g = files w g) \<and>
     (r = None \<longrightarrow> 0 \<le> sint (last_error (files w' f)))"
  by (auto simp: colo_put_cmd_value_def colo_put_cmd_def prim_defs ctl_def Let_def split: if_splits)

lemma colo_get_cmd_D:
  "colo_get_cmd f w = (cmd, r, w') \<Longrightarrow>
     trace w' = trace w @ [Get_be32 f] \<and> runstate w' = runstate w \<and> ctl w' = ctl w \<and>
     qsb w' = qsb w \<and> files w' = (files w)(f := recv_file (files w f)) \<and>
     cmd = recv_value (files w f) \<and> (r = None \<longleftrightarrow> 0 \<le> sint (last_error (files w' f)) \<and> cmd < COLO_MESSAGE__MAX)"
  by (auto simp: colo_get_cmd_def prim_defs ctl_def Let_def split: if_splits)

lemma colo_get_check_cmd_D:
  "colo_get_check_cmd f c w = (r, w') \<Longrightarrow>
     trace w' = trace w @ [Get_be32 f] \<and> runstate w' = runstate w \<and> ctl w' = ctl w \<and>
     qsb w' = qsb w \<and> files w' = (files w)(f := recv_file (files w f)) \<and>
     (r = None \<longleftrightarrow>
        0 \<le> sint (last_error (files w' f)) \<and> recv_value (files w f) = c \<and> c < COLO_MESSAGE__MAX)"
  by (auto simp: colo_get_check_cmd_def dest!: colo_get_cmd_D split: prod.splits option.splits if_splits)

lemma qemu_bufopen_D:
  "qemu_bufopen w = (b, w') \<Longrightarrow>
     trace w' = trace w @ [Bufopen b] \<and> runstate w' = runstate w \<and> ctl w' = ctl w \<and>
     qsb w' = qsb w \<and> (\<forall>g. g \<noteq> Trans_file \<longrightarrow> files w' g = files w g)"
  by (auto simp: qemu_bufopen_def prim_defs ctl_def Let_def split: if_splits)

text \<open>
  The calls of a transaction in which every step succeeds, in order, up to the resume of
  the guest; \<open>d\<close> is the content of the staging buffer when it is sent. The list
  follows the ten steps of section 4.2 of the specification: each command is put and
  flushed, the guest is stopped and started under the iothread lock, and the size sent
  with \<^verbatim>\<open>VMSTATE_SIZE\<close> is the length of \<open>d\<close>.
\<close>

definition checkpoint_calls :: "8 word list \<Rightarrow> event list" where
  "checkpoint_calls d =
     [Put_be32 To_dst_file COLO_MESSAGE_CHECKPOINT_REQUEST, Fflush To_dst_file,
      Get_be32 From_dst_file,
      Qsb_set_length 0, Bufopen True,
      Mutex_lock_iothread, Vm_stop_force_state RUN_STATE_COLO, Mutex_unlock_iothread,
      Savevm_state_header Trans_file, Savevm_state_begin Trans_file False False,
      Mutex_lock_iothread, Savevm_state_complete_precopy Trans_file False,
      Mutex_unlock_iothread, Fflush Trans_file,
      Put_be32 To_dst_file COLO_MESSAGE_VMSTATE_SEND, Fflush To_dst_file,
      Put_be32 To_dst_file COLO_MESSAGE_VMSTATE_SIZE, Fflush To_dst_file,
      Put_be64 To_dst_file (of_nat (length d)), Fflush To_dst_file,
      Qsb_put_buffer To_dst_file d (length d), Fflush To_dst_file,
      Get_be32 From_dst_file,
      Get_be32 From_dst_file,
      Mutex_lock_iothread, Vm_start, Mutex_unlock_iothread]"

text \<open>
  The transaction, written over the worlds between its calls: the result is decided by
  the first call that reports an error.
\<close>

lemma tx_result:
  assumes s1: "colo_put_cmd To_dst_file COLO_MESSAGE_CHECKPOINT_REQUEST w = (r1, w1)"
    and s2: "colo_get_check_cmd From_dst_file COLO_MESSAGE_CHECKPOINT_REPLY w1 = (r2, w2)"
    and s3: "qemu_bufopen (qsb_set_length 0 w2) = (b3, w3)"
    and w9: "w9 = qemu_fflush Trans_file
                 (qemu_mutex_unlock_iothread
                   (qemu_savevm_state_complete_precopy Trans_file False
                     (qemu_mutex_lock_iothread
                       (qemu_savevm_state_begin Trans_file
                         (qemu_savevm_state_header Trans_file
                           ((qemu_mutex_unlock_iothread
                              (vm_stop_force_state RUN_STATE_COLO (qemu_mutex_lock_iothread w3)))
                            \<lparr>params_blk := False, params_shared := False\<rparr>))))))"
    and s10: "colo_put_cmd To_dst_file COLO_MESSAGE_VMSTATE_SEND w9 = (r10, w10)"
    and s11: "colo_put_cmd_value To_dst_file COLO_MESSAGE_VMSTATE_SIZE (of_nat (qsb_get_length w10)) w10 = (r11, w11)"
    and w12: "w12 = qemu_fflush To_dst_file (qsb_put_buffer To_dst_file (qsb_get_length w10) w11)"
    and s13: "colo_get_check_cmd From_dst_file COLO_MESSAGE_VMSTATE_RECEIVED w12 = (r13, w13)"
    and s14: "colo_get_check_cmd From_dst_file COLO_MESSAGE_VMSTATE_LOADED w13 = (r14, w14)"
  shows "colo_do_checkpoint_transaction w =
     (case r1 of Some e \<Rightarrow> (- 1, error_report_err e w1) | None \<Rightarrow>
      case r2 of Some e \<Rightarrow> (- 1, error_report_err e w2) | None \<Rightarrow>
      if \<not> b3 then (- 1, error_report ''Open colo buffer for write failed'' w3) else
      case r10 of Some e \<Rightarrow> (- 1, qemu_fclose Trans_file (error_report_err e w10)) | None \<Rightarrow>
      case r11 of Some e \<Rightarrow> (- 1, qemu_fclose Trans_file (error_report_err e w11)) | None \<Rightarrow>
      if qemu_file_get_error To_dst_file w12 < 0
      then (qemu_file_get_error To_dst_file w12, qemu_fclose Trans_file w12) else
      case r13 of Some e \<Rightarrow>
        (qemu_file_get_error To_dst_file w12, qemu_fclose Trans_file (error_report_err e w13)) | None \<Rightarrow>
      case r14 of Some e \<Rightarrow>
        (qemu_file_get_error To_dst_file w12, qemu_fclose Trans_file (error_report_err e w14)) | None \<Rightarrow>
      (0, qemu_fclose Trans_file
            (qemu_mutex_unlock_iothread (vm_start (qemu_mutex_lock_iothread w14)))))"
  by (simp add: colo_do_checkpoint_transaction_def colo_do_checkpoint_transaction_out_def Let_def
    s1 s2 s3 w9[symmetric] s10 s11 w12[symmetric] s13 s14 split: option.splits)


text \<open>
  The ten ways a transaction can end: at which call it left, what it returns, what it
  has added to the log (an initial part of \<open>checkpoint_calls\<close> and the events of the
  exit path), the run state of the guest, and what it has read from the return path.
\<close>

lemma tx_cases [consumes 1, case_names request reply bufopen send size size_value payload received loaded finished]:
  assumes tx: "colo_do_checkpoint_transaction w = (ret, w')"
  obtains
    (request) e where "ret = - 1"
      "trace w' = trace w @ take 2 (checkpoint_calls (qsb_data w')) @ [Error_report_err e]"
      "runstate w' = runstate w" "ctl w' = ctl w"
      "files w' From_dst_file = files w From_dst_file"
  | (reply) e where "ret = - 1"
      "trace w' = trace w @ take 3 (checkpoint_calls (qsb_data w')) @ [Error_report_err e]"
      "runstate w' = runstate w" "ctl w' = ctl w"
      "rx (files w' From_dst_file) = tl (rx (files w From_dst_file))"
  | (bufopen) "ret = - 1"
      "trace w' = trace w @ take 4 (checkpoint_calls (qsb_data w')) @
         [Bufopen False, Error_report ''Open colo buffer for write failed'']"
      "runstate w' = runstate w" "ctl w' = ctl w"
      "rx (files w' From_dst_file) = tl (rx (files w From_dst_file))"
  | (send) e where "ret = - 1"
      "trace w' = trace w @ take 16 (checkpoint_calls (qsb_data w')) @
         [Error_report_err e, Fclose Trans_file]"
      "runstate w' = RUN_STATE_COLO" "ctl w' = ctl w"
      "rx (files w' From_dst_file) = tl (rx (files w From_dst_file))"
  | (size) e where "ret = - 1"
      "trace w' = trace w @ take 18 (checkpoint_calls (qsb_data w')) @
         [Error_report_err e, Fclose Trans_file]"
      "runstate w' = RUN_STATE_COLO" "ctl w' = ctl w"
      "rx (files w' From_dst_file) = tl (rx (files w From_dst_file))"
  | (size_value) e where "ret = - 1"
      "trace w' = trace w @ take 20 (checkpoint_calls (qsb_data w')) @
         [Error_report_err e, Fclose Trans_file]"
      "runstate w' = RUN_STATE_COLO" "ctl w' = ctl w"
      "rx (files w' From_dst_file) = tl (rx (files w From_dst_file))"
  | (payload) "ret < 0"
      "trace w' = trace w @ take 22 (checkpoint_calls (qsb_data w')) @ [Fclose Trans_file]"
      "runstate w' = RUN_STATE_COLO" "ctl w' = ctl w"
      "rx (files w' From_dst_file) = tl (rx (files w From_dst_file))"
  | (received) e e1 rest where "0 \<le> ret"
      "trace w' = trace w @ take 23 (checkpoint_calls (qsb_data w')) @
         [Error_report_err e, Fclose Trans_file]"
      "runstate w' = RUN_STATE_COLO" "ctl w' = ctl w"
      "rx (files w From_dst_file) = (COLO_MESSAGE_CHECKPOINT_REPLY, e1) # rest"
      "rx (files w' From_dst_file) = tl rest"
  | (loaded) e e1 e2 rest where "0 \<le> ret"
      "trace w' = trace w @ take 24 (checkpoint_calls (qsb_data w')) @
         [Error_report_err e, Fclose Trans_file]"
      "runstate w' = RUN_STATE_COLO" "ctl w' = ctl w"
      "rx (files w From_dst_file) =
         (COLO_MESSAGE_CHECKPOINT_REPLY, e1) # (COLO_MESSAGE_VMSTATE_RECEIVED, e2) # rest"
      "rx (files w' From_dst_file) = tl rest"
  | (finished) e1 e2 e3 where "ret = 0"
      "trace w' = trace w @ checkpoint_calls (qsb_data w') @ [Fclose Trans_file]"
      "runstate w' = RUN_STATE_RUNNING" "ctl w' = ctl w"
      "rx (files w From_dst_file) =
         (COLO_MESSAGE_CHECKPOINT_REPLY, e1) # (COLO_MESSAGE_VMSTATE_RECEIVED, e2) #
         (COLO_MESSAGE_VMSTATE_LOADED, e3) # rx (files w' From_dst_file)"
proof -
  obtain r1 w1 where s1: "colo_put_cmd To_dst_file COLO_MESSAGE_CHECKPOINT_REQUEST w = (r1, w1)"
    by (cases "colo_put_cmd To_dst_file COLO_MESSAGE_CHECKPOINT_REQUEST w")
  obtain r2 w2 where s2: "colo_get_check_cmd From_dst_file COLO_MESSAGE_CHECKPOINT_REPLY w1 = (r2, w2)"
    by (cases "colo_get_check_cmd From_dst_file COLO_MESSAGE_CHECKPOINT_REPLY w1")
  obtain b3 w3 where s3: "qemu_bufopen (qsb_set_length 0 w2) = (b3, w3)"
    by (cases "qemu_bufopen (qsb_set_length 0 w2)")
  define w9 where "w9 = qemu_fflush Trans_file
                 (qemu_mutex_unlock_iothread
                   (qemu_savevm_state_complete_precopy Trans_file False
                     (qemu_mutex_lock_iothread
                       (qemu_savevm_state_begin Trans_file
                         (qemu_savevm_state_header Trans_file
                           ((qemu_mutex_unlock_iothread
                              (vm_stop_force_state RUN_STATE_COLO (qemu_mutex_lock_iothread w3)))
                            \<lparr>params_blk := False, params_shared := False\<rparr>))))))"
  obtain r10 w10 where s10: "colo_put_cmd To_dst_file COLO_MESSAGE_VMSTATE_SEND w9 = (r10, w10)"
    by (cases "colo_put_cmd To_dst_file COLO_MESSAGE_VMSTATE_SEND w9")
  obtain r11 w11 where s11:
    "colo_put_cmd_value To_dst_file COLO_MESSAGE_VMSTATE_SIZE (of_nat (qsb_get_length w10)) w10 = (r11, w11)"
    by (cases "colo_put_cmd_value To_dst_file COLO_MESSAGE_VMSTATE_SIZE (of_nat (qsb_get_length w10)) w10")
  define w12 where "w12 = qemu_fflush To_dst_file (qsb_put_buffer To_dst_file (qsb_get_length w10) w11)"
  obtain r13 w13 where s13: "colo_get_check_cmd From_dst_file COLO_MESSAGE_VMSTATE_RECEIVED w12 = (r13, w13)"
    by (cases "colo_get_check_cmd From_dst_file COLO_MESSAGE_VMSTATE_RECEIVED w12")
  obtain r14 w14 where s14: "colo_get_check_cmd From_dst_file COLO_MESSAGE_VMSTATE_LOADED w13 = (r14, w14)"
    by (cases "colo_get_check_cmd From_dst_file COLO_MESSAGE_VMSTATE_LOADED w13")
  note res = tx_result[OF s1 s2 s3 w9_def s10 s11 w12_def s13 s14, unfolded tx]
  let ?F = "files w From_dst_file"
  have f1: "runstate w1 = runstate w" "ctl w1 = ctl w" "files w1 From_dst_file = ?F"
    and t1: "trace w1 = trace w @ take 2 (checkpoint_calls d)" for d
    using colo_put_cmd_D[OF s1] by (simp_all add: msg_defs checkpoint_calls_def)
  have f2: "runstate w2 = runstate w" "ctl w2 = ctl w" "files w2 From_dst_file = recv_file ?F"
    "r2 = None \<Longrightarrow> recv_value ?F = COLO_MESSAGE_CHECKPOINT_REPLY"
    and t2: "trace w2 = trace w @ take 3 (checkpoint_calls d)" for d
    using colo_get_check_cmd_D[OF s2] f1 t1[of d] by (simp_all add: checkpoint_calls_def)
  have f3: "runstate w3 = runstate w" "ctl w3 = ctl w" "files w3 From_dst_file = recv_file ?F"
    and t3: "trace w3 = trace w @ take 4 (checkpoint_calls d) @ [Bufopen b3]" for d
    using qemu_bufopen_D[OF s3] f2 t2[of d] by (simp_all add: checkpoint_calls_def prim_defs ctl_def)
  have f9: "runstate w9 = RUN_STATE_COLO" "ctl w9 = ctl w" "files w9 From_dst_file = recv_file ?F"
    and t9: "b3 \<Longrightarrow> trace w9 = trace w @ take 14 (checkpoint_calls d)" for d
    using f3 t3[of d] by (simp_all add: w9_def checkpoint_calls_def prim_defs ctl_def)
  have f10: "runstate w10 = RUN_STATE_COLO" "ctl w10 = ctl w"
    "files w10 From_dst_file = recv_file ?F" "qsb w10 = qsb w9"
    and t10: "b3 \<Longrightarrow> trace w10 = trace w @ take 16 (checkpoint_calls d)" for d
    using colo_put_cmd_D[OF s10] f9 t9[of d] by (simp_all add: msg_defs checkpoint_calls_def)
  have f11: "runstate w11 = RUN_STATE_COLO" "ctl w11 = ctl w"
    "files w11 From_dst_file = recv_file ?F" "qsb w11 = qsb w9"
    using colo_put_cmd_value_D[OF s11] f10 by (simp_all add: msg_defs)
  have t11: "b3 \<Longrightarrow> r11 = None \<Longrightarrow> trace w11 = trace w @ take 20 (checkpoint_calls (qsb_data w11))"
    "b3 \<Longrightarrow> trace w11 = trace w @ take 20 (checkpoint_calls (qsb_data w11)) \<or>
       trace w11 = trace w @ take 18 (checkpoint_calls (qsb_data w11))"
    using colo_put_cmd_value_D[OF s11] t10[of "qsb_data w11"] f10(4) f11(4)
    by (auto simp add: msg_defs checkpoint_calls_def prim_defs qsb_data_def split: if_splits)
  have f12: "runstate w12 = RUN_STATE_COLO" "ctl w12 = ctl w"
    "files w12 From_dst_file = recv_file ?F" "qsb w12 = qsb w9"
    and t12: "b3 \<Longrightarrow> r11 = None \<Longrightarrow> trace w12 = trace w @ take 22 (checkpoint_calls (qsb_data w12))"
    using t11(1) f11 f10(4) by (simp_all add: w12_def checkpoint_calls_def prim_defs ctl_def qsb_data_def)
  have f13: "runstate w13 = RUN_STATE_COLO" "ctl w13 = ctl w"
    "files w13 From_dst_file = recv_file (recv_file ?F)" "qsb w13 = qsb w9"
    "r13 = None \<Longrightarrow> recv_value (recv_file ?F) = COLO_MESSAGE_VMSTATE_RECEIVED"
    and t13: "b3 \<Longrightarrow> r11 = None \<Longrightarrow> trace w13 = trace w @ take 23 (checkpoint_calls (qsb_data w13))"
    using colo_get_check_cmd_D[OF s13] f12 t12 by (simp_all add: checkpoint_calls_def qsb_data_def)
  have f14: "runstate w14 = RUN_STATE_COLO" "ctl w14 = ctl w"
    "files w14 From_dst_file = recv_file (recv_file (recv_file ?F))" "qsb w14 = qsb w9"
    "r14 = None \<Longrightarrow> recv_value (recv_file (recv_file ?F)) = COLO_MESSAGE_VMSTATE_LOADED"
    and t14: "b3 \<Longrightarrow> r11 = None \<Longrightarrow> trace w14 = trace w @ take 24 (checkpoint_calls (qsb_data w14))"
    using colo_get_check_cmd_D[OF s14] f13 t13 by (simp_all add: checkpoint_calls_def qsb_data_def)
  have rx1: "recv_value fl = c \<Longrightarrow> c \<noteq> 0 \<Longrightarrow> \<exists>e rest. rx fl = (c, e) # rest" for fl c
    by (auto simp: recv_value_def split: list.splits)
  have rxt: "rx (recv_file fl) = tl (rx fl)" for fl
    by (rule rx_recv_file)
  show thesis
  proof (cases r1)
    case (Some e)
    with res have "ret = - 1" "w' = error_report_err e w1" by simp_all
    then show thesis using f1 t1[of "qsb_data w1"]
      by (intro request[of e]) (simp_all add: prim_defs ctl_def qsb_data_def)
  next
    case r1: None
    show thesis
    proof (cases r2)
      case (Some e)
      with res r1 have "ret = - 1" "w' = error_report_err e w2" by simp_all
      then show thesis using f2 t2[of "qsb_data w2"]
        by (intro reply[of e]) (simp_all add: prim_defs ctl_def rxt qsb_data_def)
    next
      case r2: None
      show thesis
      proof (cases b3)
        case False
        with res r1 r2 have "ret = - 1"
          "w' = error_report ''Open colo buffer for write failed'' w3" by simp_all
        then show thesis using f3 t3[of "qsb_data w3"] False
          by (intro bufopen) (simp_all add: prim_defs ctl_def rxt qsb_data_def)
      next
        case b3: True
        show thesis
        proof (cases r10)
          case (Some e)
          with res r1 r2 b3 have "ret = - 1" "w' = qemu_fclose Trans_file (error_report_err e w10)"
            by simp_all
          then show thesis using f10 t10[OF b3, of "qsb_data w10"]
            by (intro send[of e]) (simp_all add: prim_defs ctl_def rxt qsb_data_def)
        next
          case r10: None
          show thesis
          proof (cases r11)
            case (Some e)
            with res r1 r2 b3 r10 have *: "ret = - 1"
              "w' = qemu_fclose Trans_file (error_report_err e w11)" by simp_all
            from t11(2)[OF b3] show thesis
            proof
              assume "trace w11 = trace w @ take 20 (checkpoint_calls (qsb_data w11))"
              then show thesis using * f11
                by (intro size_value[of e]) (simp_all add: prim_defs ctl_def rxt qsb_data_def)
            next
              assume "trace w11 = trace w @ take 18 (checkpoint_calls (qsb_data w11))"
              then show thesis using * f11
                by (intro size[of e]) (simp_all add: prim_defs ctl_def rxt qsb_data_def)
            qed
          next
            case r11: None
            show thesis
            proof (cases "qemu_file_get_error To_dst_file w12 < 0")
              case True
              with res r1 r2 b3 r10 r11 have *: "ret < 0" "w' = qemu_fclose Trans_file w12"
                by simp_all
              show thesis using * f12 t12[OF b3 r11]
                by (intro payload) (simp_all add: prim_defs ctl_def rxt qsb_data_def)
            next
              case e12: False
              from f2(4)[OF r2] have "\<exists>e rest. rx ?F = (COLO_MESSAGE_CHECKPOINT_REPLY, e) # rest"
                by (intro rx1) (simp_all add: msg_defs)
              then obtain e1 rest1 where x1: "rx ?F = (COLO_MESSAGE_CHECKPOINT_REPLY, e1) # rest1"
                by blast
              then have y1: "rx (recv_file ?F) = rest1" by (simp add: rxt)
              show thesis
              proof (cases r13)
                case (Some e)
                with res r1 r2 b3 r10 r11 e12 have *: "0 \<le> ret"
                  "w' = qemu_fclose Trans_file (error_report_err e w13)" by simp_all
                show thesis using * f13 t13[OF b3 r11] x1 y1
                  by (intro received[of e e1 rest1]) (simp_all add: prim_defs ctl_def rxt qsb_data_def)
              next
                case r13: None
                from f13(5)[OF r13]
                have "\<exists>e rest. rx (recv_file ?F) = (COLO_MESSAGE_VMSTATE_RECEIVED, e) # rest"
                  by (intro rx1) (simp_all add: msg_defs)
                then obtain e2 rest2 where x2: "rest1 = (COLO_MESSAGE_VMSTATE_RECEIVED, e2) # rest2"
                  using y1 by auto
                then have y2: "rx (recv_file (recv_file ?F)) = rest2" using y1 by (simp add: rxt)
                show thesis
                proof (cases r14)
                  case (Some e)
                  with res r1 r2 b3 r10 r11 e12 r13 have *: "0 \<le> ret"
                    "w' = qemu_fclose Trans_file (error_report_err e w14)" by simp_all
                  from x1 x2 have "rx ?F = (COLO_MESSAGE_CHECKPOINT_REPLY, e1) #
                      (COLO_MESSAGE_VMSTATE_RECEIVED, e2) # rest2" by simp
                  then show thesis using * f14 t14[OF b3 r11] y2
                    by (intro loaded[of e e1 e2 rest2]) (simp_all add: prim_defs ctl_def rxt qsb_data_def)
                next
                  case r14: None
                  from f14(5)[OF r14]
                  have "\<exists>e rest. rx (recv_file (recv_file ?F)) = (COLO_MESSAGE_VMSTATE_LOADED, e) # rest"
                    by (intro rx1) (simp_all add: msg_defs)
                  then obtain e3 rest3 where x3: "rest2 = (COLO_MESSAGE_VMSTATE_LOADED, e3) # rest3"
                    using y2 by auto
                  then have y3: "rx (recv_file (recv_file (recv_file ?F))) = rest3"
                    using y2 by (simp add: rxt)
                  from res r1 r2 b3 r10 r11 e12 r13 r14 have *: "ret = 0"
                    "w' = qemu_fclose Trans_file
                           (qemu_mutex_unlock_iothread (vm_start (qemu_mutex_lock_iothread w14)))"
                    by simp_all
                  from x1 x2 x3 have "rx ?F = (COLO_MESSAGE_CHECKPOINT_REPLY, e1) #
                      (COLO_MESSAGE_VMSTATE_RECEIVED, e2) # (COLO_MESSAGE_VMSTATE_LOADED, e3) #
                      rest3" by simp
                  then show thesis using * f14 t14[OF b3 r11] y3
                    by (intro finished[of e1 e2 e3]) (simp_all add: prim_defs ctl_def rxt qsb_data_def checkpoint_calls_def)
                qed
              qed
            qed
          qed
        qed
      qed
    qed
  qed
qed

lemma read_state_frame:
  "read_state p w = (st, w1) \<Longrightarrow>
     files w1 = files w \<and> trace w1 = trace w \<and> runstate w1 = runstate w \<and> qsb w1 = qsb w \<and>
     from_dst_file w1 = from_dst_file w \<and> to_src_file w1 = to_src_file w"
  by (auto simp: read_state_def split: state_ptr.splits)

section \<open>The primary: the checkpoint phase\<close>

text \<open>
  The loop of \<^verbatim>\<open>colo_process_checkpoint\<close>. It ends when the status is no longer
  \<^verbatim>\<open>MIGRATION_STATUS_COLO\<close> at the head of an iteration, or when a transaction
  returns a negative value; both ways lead to the label \<^verbatim>\<open>out\<close>. A transaction that
  does not return a negative value has read at least one command from the return path,
  so the loop ends once the script of the return path is used up: the function is total.
\<close>

function colo_checkpoint_loop :: "world \<Rightarrow> world" where
  "colo_checkpoint_loop w =
     (case read_state S_state w of
        (st, w1) \<Rightarrow>
          if st = MIGRATION_STATUS_COLO
          then (case colo_do_checkpoint_transaction w1 of
                  (ret, w2) \<Rightarrow> if ret < 0 then w2 else colo_checkpoint_loop w2)
          else w1)"
  by pat_completeness auto

termination colo_checkpoint_loop
proof (relation "measure (\<lambda>w. length (rx (files w From_dst_file)))")
  show "wf (measure (\<lambda>w. length (rx (files w From_dst_file))))" by simp
next
  fix w st w1 ret w2
  assume rs: "(st, w1) = read_state S_state w"
    and tx: "(ret, w2) = colo_do_checkpoint_transaction w1"
    and ret: "\<not> ret < 0"
  from rs have fw: "files w1 = files w"
    using read_state_frame[of S_state w st w1] by simp
  from tx[symmetric] ret
  have "length (rx (files w2 From_dst_file)) < length (rx (files w1 From_dst_file))"
  proof (cases rule: tx_cases)
    case (received e e1 rest)
    then show ?thesis by simp
  next
    case (loaded e e1 e2 rest)
    then show ?thesis by simp
  next
    case (finished e1 e2 e3)
    then show ?thesis by simp
  qed simp_all
  then show "(w2, w) \<in> measure (\<lambda>w. length (rx (files w From_dst_file)))"
    by (simp add: fw)
qed

text \<open>
  The label \<^verbatim>\<open>out\<close> of \<^verbatim>\<open>colo_process_checkpoint\<close>, with the values of
  \<^verbatim>\<open>local_err\<close> and of the pointer \<^verbatim>\<open>buffer\<close> (set or null) at the jump.
\<close>

definition colo_process_checkpoint_out :: "Error option \<Rightarrow> bool \<Rightarrow> world \<Rightarrow> world" where
  "colo_process_checkpoint_out local_err buffer w =
     (let w1 = (case local_err of Some e \<Rightarrow> error_report_err e w | None \<Rightarrow> w);
          w2 = migrate_set_state S_state MIGRATION_STATUS_COLO MIGRATION_STATUS_COMPLETED w1;
          w3 = qsb_free buffer w2
      in case from_dst_file w3 of
           Some f \<Rightarrow> qemu_fclose f w3
         | None \<Rightarrow> w3)"

definition colo_process_checkpoint :: "world \<Rightarrow> world" where
  "colo_process_checkpoint w =
     (case qemu_file_get_return_path To_dst_file w of
        (rp, w1) \<Rightarrow>
     (let w2 = w1\<lparr>from_dst_file := rp\<rparr>
      in
      if rp = None
      then colo_process_checkpoint_out None False
             (error_report ''Open QEMUFile from_dst_file failed'' w2)
      else
     (case colo_get_check_cmd From_dst_file COLO_MESSAGE_CHECKPOINT_READY w2 of
        (Some e, w3) \<Rightarrow> colo_process_checkpoint_out (Some e) False w3
      | (None, w3) \<Rightarrow>
     (case qsb_create w3 of
        (False, w4) \<Rightarrow>
          colo_process_checkpoint_out None False
            (error_report ''Failed to allocate colo buffer!'' w4)
      | (True, w4) \<Rightarrow>
          colo_process_checkpoint_out None True
            (colo_checkpoint_loop
               (qemu_mutex_unlock_iothread (vm_start (qemu_mutex_lock_iothread w4))))))))"

definition migrate_start_colo_process :: "world \<Rightarrow> world" where
  "migrate_start_colo_process w =
     qemu_mutex_lock_iothread
       (colo_process_checkpoint
          (migrate_set_state S_state MIGRATION_STATUS_ACTIVE MIGRATION_STATUS_COLO
             (qemu_mutex_unlock_iothread w)))"



lemma filter_take_nil: "filter P xs = [] \<Longrightarrow> filter P (take k xs) = []"
  by (metis filter_empty_conv in_set_takeD)






section \<open>The secondary: the responder\<close>

text \<open>
  One pass through the body of the loop of \<^verbatim>\<open>colo_process_incoming_thread\<close>. It
  leaves by \<^verbatim>\<open>goto out\<close> with the error of the failing step, by a failing
  \<^verbatim>\<open>assert(request)\<close> (which aborts the process; reading \<^verbatim>\<open>request\<close> when
  \<^verbatim>\<open>colo_wait_handle_cmd\<close> has not written it counts as a failing assertion), or by
  reaching the end of the body.
\<close>

datatype iteration_exit = Iter_out Error | Iter_abort | Iter_next

definition colo_incoming_iteration :: "world \<Rightarrow> iteration_exit \<times> world" where
  "colo_incoming_iteration w =
     (case colo_wait_handle_cmd From_src_file w of
        (request, Some e, w1) \<Rightarrow> (Iter_out e, w1)
      | (request, None, w1) \<Rightarrow>
          if request = None \<or> request = Some 0 then (Iter_abort, w1)
          else
     (case colo_put_cmd To_src_file COLO_MESSAGE_CHECKPOINT_REPLY w1 of
        (Some e, w2) \<Rightarrow> (Iter_out e, w2)
      | (None, w2) \<Rightarrow>
     (case colo_get_check_cmd From_src_file COLO_MESSAGE_VMSTATE_SEND w2 of
        (Some e, w3) \<Rightarrow> (Iter_out e, w3)
      | (None, w3) \<Rightarrow>
     (case colo_put_cmd To_src_file COLO_MESSAGE_VMSTATE_RECEIVED w3 of
        (Some e, w4) \<Rightarrow> (Iter_out e, w4)
      | (None, w4) \<Rightarrow>
     (case colo_put_cmd To_src_file COLO_MESSAGE_VMSTATE_LOADED w4 of
        (Some e, w5) \<Rightarrow> (Iter_out e, w5)
      | (None, w5) \<Rightarrow> (Iter_next, w5))))))"

lemma colo_wait_handle_cmd_D:
  "colo_wait_handle_cmd f w = (rq, r, w') \<Longrightarrow>
     trace w' = trace w @ [Get_be32 f] \<and> runstate w' = runstate w \<and> ctl w' = ctl w \<and>
     qsb w' = qsb w \<and> files w' = (files w)(f := recv_file (files w f)) \<and>
     (r = None \<longrightarrow> rq = Some 1 \<and> recv_value (files w f) = COLO_MESSAGE_CHECKPOINT_REQUEST)"
  by (auto simp: colo_wait_handle_cmd_def dest!: colo_get_cmd_D split: prod.splits option.splits if_splits)

text \<open>
  The calls of one pass through the body of the responder's loop in which every step
  succeeds, in order (steps 1 to 6 of section 4.3 of the specification; the code does
  nothing yet between \<^verbatim>\<open>VMSTATE_SEND\<close> and the two acknowledgments).
\<close>

definition responder_calls :: "event list" where
  "responder_calls =
     [Get_be32 From_src_file,
      Put_be32 To_src_file COLO_MESSAGE_CHECKPOINT_REPLY, Fflush To_src_file,
      Get_be32 From_src_file,
      Put_be32 To_src_file COLO_MESSAGE_VMSTATE_RECEIVED, Fflush To_src_file,
      Put_be32 To_src_file COLO_MESSAGE_VMSTATE_LOADED, Fflush To_src_file]"

lemma iteration_result:
  assumes s1: "colo_wait_handle_cmd From_src_file w = (rq, r1, w1)"
    and s2: "colo_put_cmd To_src_file COLO_MESSAGE_CHECKPOINT_REPLY w1 = (r2, w2)"
    and s3: "colo_get_check_cmd From_src_file COLO_MESSAGE_VMSTATE_SEND w2 = (r3, w3)"
    and s4: "colo_put_cmd To_src_file COLO_MESSAGE_VMSTATE_RECEIVED w3 = (r4, w4)"
    and s5: "colo_put_cmd To_src_file COLO_MESSAGE_VMSTATE_LOADED w4 = (r5, w5)"
  shows "colo_incoming_iteration w =
     (case r1 of Some e \<Rightarrow> (Iter_out e, w1) | None \<Rightarrow>
      if rq = None \<or> rq = Some 0 then (Iter_abort, w1) else
      case r2 of Some e \<Rightarrow> (Iter_out e, w2) | None \<Rightarrow>
      case r3 of Some e \<Rightarrow> (Iter_out e, w3) | None \<Rightarrow>
      case r4 of Some e \<Rightarrow> (Iter_out e, w4) | None \<Rightarrow>
      case r5 of Some e \<Rightarrow> (Iter_out e, w5) | None \<Rightarrow> (Iter_next, w5))"
  by (simp add: colo_incoming_iteration_def s1 s2 s3 s4 s5 split: option.splits)

lemma iteration_cases [consumes 1, case_names failed completed]:
  assumes it: "colo_incoming_iteration w = (x, w')"
  obtains
    (failed) e k where "x = Iter_out e" "k \<in> {1, 3, 4, 6, 8}"
      "trace w' = trace w @ take k responder_calls"
      "runstate w' = runstate w" "ctl w' = ctl w" "qsb w' = qsb w"
      "length (rx (files w' From_src_file)) \<le> length (rx (files w From_src_file))"
  | (completed) e1 e2 where "x = Iter_next"
      "trace w' = trace w @ responder_calls"
      "runstate w' = runstate w" "ctl w' = ctl w" "qsb w' = qsb w"
      "rx (files w From_src_file) =
         (COLO_MESSAGE_CHECKPOINT_REQUEST, e1) # (COLO_MESSAGE_VMSTATE_SEND, e2) #
         rx (files w' From_src_file)"
proof -
  obtain rq r1 w1 where s1: "colo_wait_handle_cmd From_src_file w = (rq, r1, w1)"
    by (cases "colo_wait_handle_cmd From_src_file w")
  obtain r2 w2 where s2: "colo_put_cmd To_src_file COLO_MESSAGE_CHECKPOINT_REPLY w1 = (r2, w2)"
    by (cases "colo_put_cmd To_src_file COLO_MESSAGE_CHECKPOINT_REPLY w1")
  obtain r3 w3 where s3: "colo_get_check_cmd From_src_file COLO_MESSAGE_VMSTATE_SEND w2 = (r3, w3)"
    by (cases "colo_get_check_cmd From_src_file COLO_MESSAGE_VMSTATE_SEND w2")
  obtain r4 w4 where s4: "colo_put_cmd To_src_file COLO_MESSAGE_VMSTATE_RECEIVED w3 = (r4, w4)"
    by (cases "colo_put_cmd To_src_file COLO_MESSAGE_VMSTATE_RECEIVED w3")
  obtain r5 w5 where s5: "colo_put_cmd To_src_file COLO_MESSAGE_VMSTATE_LOADED w4 = (r5, w5)"
    by (cases "colo_put_cmd To_src_file COLO_MESSAGE_VMSTATE_LOADED w4")
  note res = iteration_result[OF s1 s2 s3 s4 s5, unfolded it]
  let ?F = "files w From_src_file"
  have rxt: "rx (recv_file fl) = tl (rx fl)" for fl by (rule rx_recv_file)
  have rx1: "recv_value fl = c \<Longrightarrow> c \<noteq> 0 \<Longrightarrow> \<exists>e rest. rx fl = (c, e) # rest" for fl c
    by (auto simp: recv_value_def split: list.splits)
  have f1: "trace w1 = trace w @ take 1 responder_calls" "runstate w1 = runstate w"
    "ctl w1 = ctl w" "qsb w1 = qsb w" "files w1 From_src_file = recv_file ?F"
    "r1 = None \<Longrightarrow> rq = Some 1 \<and> recv_value ?F = COLO_MESSAGE_CHECKPOINT_REQUEST"
    using colo_wait_handle_cmd_D[OF s1] by (simp_all add: responder_calls_def)
  have f2: "trace w2 = trace w @ take 3 responder_calls" "runstate w2 = runstate w"
    "ctl w2 = ctl w" "qsb w2 = qsb w" "files w2 From_src_file = recv_file ?F"
    using colo_put_cmd_D[OF s2] f1 by (simp_all add: responder_calls_def msg_defs)
  have f3: "trace w3 = trace w @ take 4 responder_calls" "runstate w3 = runstate w"
    "ctl w3 = ctl w" "qsb w3 = qsb w" "files w3 From_src_file = recv_file (recv_file ?F)"
    "r3 = None \<Longrightarrow> recv_value (recv_file ?F) = COLO_MESSAGE_VMSTATE_SEND"
    using colo_get_check_cmd_D[OF s3] f2 by (simp_all add: responder_calls_def)
  have f4: "trace w4 = trace w @ take 6 responder_calls" "runstate w4 = runstate w"
    "ctl w4 = ctl w" "qsb w4 = qsb w" "files w4 From_src_file = recv_file (recv_file ?F)"
    using colo_put_cmd_D[OF s4] f3 by (simp_all add: responder_calls_def msg_defs)
  have f5: "trace w5 = trace w @ take 8 responder_calls" "runstate w5 = runstate w"
    "ctl w5 = ctl w" "qsb w5 = qsb w" "files w5 From_src_file = recv_file (recv_file ?F)"
    using colo_put_cmd_D[OF s5] f4 by (simp_all add: responder_calls_def msg_defs)
  show thesis
  proof (cases r1)
    case (Some e)
    with res have "x = Iter_out e" "w' = w1" by simp_all
    then show thesis using f1 by (intro failed[of e 1]) (simp_all add: rxt)
  next
    case r1: None
    with f1(6) have rq: "rq = Some 1" and v1: "recv_value ?F = COLO_MESSAGE_CHECKPOINT_REQUEST"
      by simp_all
    show thesis
    proof (cases r2)
      case (Some e)
      with res r1 rq have "x = Iter_out e" "w' = w2" by simp_all
      then show thesis using f2 by (intro failed[of e 3]) (simp_all add: rxt)
    next
      case r2: None
      show thesis
      proof (cases r3)
        case (Some e)
        with res r1 rq r2 have "x = Iter_out e" "w' = w3" by simp_all
        then show thesis using f3 by (intro failed[of e 4]) (simp_all add: rxt)
      next
        case r3: None
        show thesis
        proof (cases r4)
          case (Some e)
          with res r1 rq r2 r3 have "x = Iter_out e" "w' = w4" by simp_all
          then show thesis using f4 by (intro failed[of e 6]) (simp_all add: rxt)
        next
          case r4: None
          show thesis
          proof (cases r5)
            case (Some e)
            with res r1 rq r2 r3 r4 have "x = Iter_out e" "w' = w5" by simp_all
            then show thesis using f5 by (intro failed[of e 8]) (simp_all add: rxt)
          next
            case r5: None
            with res r1 rq r2 r3 r4 have *: "x = Iter_next" "w' = w5" by simp_all
            from v1 have "\<exists>e rest. rx ?F = (COLO_MESSAGE_CHECKPOINT_REQUEST, e) # rest"
              by (intro rx1) (simp_all add: msg_defs)
            then obtain e1 rest1 where x1: "rx ?F = (COLO_MESSAGE_CHECKPOINT_REQUEST, e1) # rest1"
              by blast
            then have y1: "rx (recv_file ?F) = rest1" by (simp add: rxt)
            from f3(6)[OF r3] have "\<exists>e rest. rx (recv_file ?F) = (COLO_MESSAGE_VMSTATE_SEND, e) # rest"
              by (intro rx1) (simp_all add: msg_defs)
            then obtain e2 rest2 where x2: "rest1 = (COLO_MESSAGE_VMSTATE_SEND, e2) # rest2"
              using y1 by auto
            then have y2: "rx (recv_file (recv_file ?F)) = rest2" using y1 by (simp add: rxt)
            from x1 x2 y2 show thesis using * f5
              by (intro completed[of e1 e2]) (simp_all add: responder_calls_def)
          qed
        qed
      qed
    qed
  qed
qed

text \<open>
  The loop of \<^verbatim>\<open>colo_process_incoming_thread\<close>. The result is \<open>None\<close> when the
  process aborted at the assertion, and otherwise the value of \<^verbatim>\<open>local_err\<close> and
  the world at the label \<^verbatim>\<open>out\<close>. An iteration that reaches the end of the body
  has read two commands from the primary, so the loop ends once the script of the
  inbound channel is used up: the function is total.
\<close>

function colo_incoming_loop :: "world \<Rightarrow> (Error option \<times> world) option" where
  "colo_incoming_loop w =
     (case read_state Mis_state w of
        (st, w1) \<Rightarrow>
          if st = MIGRATION_STATUS_COLO
          then (case colo_incoming_iteration w1 of
                  (Iter_out e, w2) \<Rightarrow> Some (Some e, w2)
                | (Iter_abort, w2) \<Rightarrow> None
                | (Iter_next, w2) \<Rightarrow> colo_incoming_loop w2)
          else Some (None, w1))"
  by pat_completeness auto

termination colo_incoming_loop
proof (relation "measure (\<lambda>w. length (rx (files w From_src_file)))")
  show "wf (measure (\<lambda>w. length (rx (files w From_src_file))))" by simp
next
  fix w st w1 x w2
  assume rs: "(st, w1) = read_state Mis_state w"
    and it: "(x, w2) = colo_incoming_iteration w1"
    and x: "x = Iter_next"
  from rs have fw: "files w1 = files w"
    using read_state_frame[of Mis_state w st w1] by simp
  from it[symmetric] x
  have "length (rx (files w2 From_src_file)) < length (rx (files w1 From_src_file))"
    by (cases rule: iteration_cases) simp_all
  then show "(w2, w) \<in> measure (\<lambda>w. length (rx (files w From_src_file)))"
    by (simp add: fw)
qed

text \<open>The label \<^verbatim>\<open>out\<close> of \<^verbatim>\<open>colo_process_incoming_thread\<close>.\<close>

definition colo_process_incoming_thread_out :: "Error option \<Rightarrow> world \<Rightarrow> world" where
  "colo_process_incoming_thread_out local_err w =
     (let w1 = (case local_err of Some e \<Rightarrow> error_report_err e w | None \<Rightarrow> w);
          w2 = qemu_mutex_unlock_iothread
                 (colo_release_ram_cache (qemu_mutex_lock_iothread w1));
          w3 = (case to_src_file w2 of
                  Some f \<Rightarrow> qemu_fclose f w2
                | None \<Rightarrow> w2)
      in migration_incoming_exit_colo w3)"

text \<open>
  \<^verbatim>\<open>colo_process_incoming_thread\<close>: \<open>None\<close> when the process aborted at the
  assertion, and otherwise the world in which the thread returns.
\<close>

definition colo_process_incoming_thread :: "world \<Rightarrow> world option" where
  "colo_process_incoming_thread w =
     (let w1 = migrate_set_state Mis_state MIGRATION_STATUS_ACTIVE MIGRATION_STATUS_COLO w
      in
     (case qemu_file_get_return_path From_src_file w1 of
        (rp, w2) \<Rightarrow>
     (let w3 = w2\<lparr>to_src_file := rp\<rparr>
      in
      if rp = None
      then Some (colo_process_incoming_thread_out None
                   (error_report ''colo incoming thread: Open QEMUFile to_src_file failed'' w3))
      else
     (let w4 = qemu_file_set_blocking From_src_file True w3
      in
     (case colo_init_ram_cache w4 of
        (ret, w5) \<Rightarrow>
      if ret < 0
      then Some (colo_process_incoming_thread_out None
                   (error_report ''Failed to initialize ram cache'' w5))
      else
     (case colo_put_cmd To_src_file COLO_MESSAGE_CHECKPOINT_READY w5 of
        (Some e, w6) \<Rightarrow> Some (colo_process_incoming_thread_out (Some e) w6)
      | (None, w6) \<Rightarrow>
     (case colo_incoming_loop w6 of
        None \<Rightarrow> None
      | Some (local_err, w7) \<Rightarrow> Some (colo_process_incoming_thread_out local_err w7))))))))"

section \<open>Facts about the responder\<close>

text \<open>
  \<open>responder_calls\<close> (defined above) is what one full pass through the loop body
  calls. \<open>responder_prelude\<close> is what the thread calls before its loop, given whether
  the return path could be opened and what \<^verbatim>\<open>colo_init_ram_cache\<close> returned;
  \<open>responder_teardown\<close> is what it calls after the label \<^verbatim>\<open>out\<close>, given whether
  \<^verbatim>\<open>mis->to_src_file\<close> is set.
\<close>

definition responder_prelude :: "bool \<Rightarrow> int \<Rightarrow> event list" where
  "responder_prelude opened c =
     [Migrate_set_state Mis_state MIGRATION_STATUS_ACTIVE MIGRATION_STATUS_COLO,
      Get_return_path From_src_file (if opened then Some To_src_file else None),
      Set_blocking From_src_file True,
      Colo_init_ram_cache c,
      Put_be32 To_src_file COLO_MESSAGE_CHECKPOINT_READY, Fflush To_src_file]"

definition responder_teardown :: "bool \<Rightarrow> event list" where
  "responder_teardown opened =
     [Mutex_lock_iothread, Colo_release_ram_cache, Mutex_unlock_iothread] @
     (if opened then [Fclose To_src_file] else []) @
     [Migration_incoming_exit_colo]"

fun is_report :: "event \<Rightarrow> bool" where
  "is_report (Error_report m) = True"
| "is_report (Error_report_err e) = True"
| "is_report e = False"

lemma incoming_loop_shape:
  "\<exists>r w' n k. colo_incoming_loop w = Some (r, w') \<and>
      trace w' = trace w @ concat (replicate n responder_calls) @ take k responder_calls \<and>
      (case r of None \<Rightarrow> k = 0 | Some e \<Rightarrow> k \<in> {1, 3, 4, 6, 8}) \<and>
      to_src_file w' = to_src_file w \<and>
      (fst (read_state Mis_state w) = MIGRATION_STATUS_COLO \<longrightarrow> 0 < n + k) \<and>
      map fst (take (2 * n) (rx (files w From_src_file))) =
        concat (replicate n [COLO_MESSAGE_CHECKPOINT_REQUEST, COLO_MESSAGE_VMSTATE_SEND])"
proof (induction w rule: colo_incoming_loop.induct)
  case (1 w)
  obtain st w1 where rs: "read_state Mis_state w = (st, w1)" by (cases "read_state Mis_state w")
  obtain x w2 where it: "colo_incoming_iteration w1 = (x, w2)"
    by (cases "colo_incoming_iteration w1")
  note fr = read_state_frame[OF rs]
  show ?case
  proof (cases "st = MIGRATION_STATUS_COLO")
    case False
    then have "colo_incoming_loop w = Some (None, w1)"
      using rs by (simp add: colo_incoming_loop.simps[of w])
    then show ?thesis using fr rs False
      by (intro exI[of _ None] exI[of _ w1] exI[of _ 0]) simp
  next
    case colo: True
    from it show ?thesis
    proof (cases rule: iteration_cases)
      case (failed e k)
      then have "colo_incoming_loop w = Some (Some e, w2)"
        using rs it colo by (simp add: colo_incoming_loop.simps[of w])
      then show ?thesis using failed fr
        by (intro exI[of _ "Some e"] exI[of _ w2] exI[of _ 0] exI[of _ k]) (auto simp add: ctl_def)
    next
      case (completed e1 e2)
      then have eq: "colo_incoming_loop w = colo_incoming_loop w2"
        using rs it colo by (simp add: colo_incoming_loop.simps[of w])
      from "1.IH"[OF rs[symmetric] colo it[symmetric] completed(1)]
      obtain r w' n k where ih: "colo_incoming_loop w2 = Some (r, w')"
        "trace w' = trace w2 @ concat (replicate n responder_calls) @ take k responder_calls"
        "case r of None \<Rightarrow> k = 0 | Some e \<Rightarrow> k \<in> {1, 3, 4, 6, 8}"
        "to_src_file w' = to_src_file w2"
        "map fst (take (2 * n) (rx (files w2 From_src_file))) =
           concat (replicate n [COLO_MESSAGE_CHECKPOINT_REQUEST, COLO_MESSAGE_VMSTATE_SEND])"
        by blast
      show ?thesis using ih completed fr eq
        by (intro exI[of _ r] exI[of _ w'] exI[of _ "Suc n"] exI[of _ k]) (simp add: ctl_def)
    qed
  qed
qed

text \<open>
  A run of the thread. \<open>ready_sent w\<close> says that the flush that sends
  \<^verbatim>\<open>CHECKPOINT_READY\<close> leaves the return path without an error, \<open>loop_entered w\<close>
  that the status is \<^verbatim>\<open>MIGRATION_STATUS_COLO\<close> when the loop tests it for the first
  time (\<^verbatim>\<open>migrate_set_state\<close> has moved it there from \<^verbatim>\<open>MIGRATION_STATUS_ACTIVE\<close>,
  and another thread may have written it since).
\<close>

definition ready_sent :: "world \<Rightarrow> bool" where
  "ready_sent w = (0 \<le> sint (last_error (flush_file (files w To_src_file))))"

definition loop_entered :: "world \<Rightarrow> bool" where
  "loop_entered w =
     (next_state
        (if mis_state w = MIGRATION_STATUS_ACTIVE then MIGRATION_STATUS_COLO else mis_state w)
        (async_state w) = MIGRATION_STATUS_COLO)"

lemma thread_shape:
  "\<exists>w' j n k rep. colo_process_incoming_thread w = Some w' \<and>
      trace w' = trace w @ take j (responder_prelude (return_path_ok w) (sint (ram_cache_ret w))) @
        concat (replicate n responder_calls) @ take k responder_calls @ rep @
        responder_teardown (return_path_ok w) \<and>
      j \<in> {2, 4, 6} \<and> (j < 6 \<longrightarrow> n = 0 \<and> k = 0) \<and> k \<in> {0, 1, 3, 4, 6, 8} \<and>
      length rep \<le> 1 \<and> list_all is_report rep \<and>
      j = (if \<not> return_path_ok w then 2 else if sint (ram_cache_ret w) < 0 then 4 else 6) \<and>
      (if \<not> return_path_ok w
       then rep = [Error_report ''colo incoming thread: Open QEMUFile to_src_file failed'']
       else if sint (ram_cache_ret w) < 0
       then rep = [Error_report ''Failed to initialize ram cache'']
       else if \<not> ready_sent w
       then n = 0 \<and> k = 0 \<and>
            rep = [Error_report_err (Error_setg_errno
                     (c_int_neg (sint (last_error (flush_file (files w To_src_file)))))
                     ''Can't put COLO command'' [])]
       else (if k = 0 then rep = [] else (\<exists>e. rep = [Error_report_err e])) \<and>
            (if loop_entered w then 0 < n + k else n = 0 \<and> k = 0) \<and>
            map fst (take (2 * n) (rx (files w From_src_file))) =
              concat (replicate n [COLO_MESSAGE_CHECKPOINT_REQUEST, COLO_MESSAGE_VMSTATE_SEND]))"
proof (cases "return_path_ok w")
  case False
  then have "colo_process_incoming_thread w = Some (colo_process_incoming_thread_out None
      (error_report ''colo incoming thread: Open QEMUFile to_src_file failed''
        ((log_event (Get_return_path From_src_file None)
          (migrate_set_state Mis_state MIGRATION_STATUS_ACTIVE MIGRATION_STATUS_COLO w))
         \<lparr>to_src_file := None\<rparr>)))"
    by (simp add: colo_process_incoming_thread_def qemu_file_get_return_path_def Let_def
        migrate_set_state_def log_event_def)
  then show ?thesis using False
    by (intro exI[of _ "the (colo_process_incoming_thread w)"] exI[of _ 2] exI[of _ 0]
        exI[of _ "[Error_report ''colo incoming thread: Open QEMUFile to_src_file failed'']"])
      (simp add: colo_process_incoming_thread_out_def migrate_set_state_def prim_defs
        colo_release_ram_cache_def migration_incoming_exit_colo_def
        responder_prelude_def responder_teardown_def Let_def)
next
  case rp: True
  define w4 where "w4 = qemu_file_set_blocking From_src_file True
     ((log_event (Get_return_path From_src_file (Some To_src_file))
        (migrate_set_state Mis_state MIGRATION_STATUS_ACTIVE MIGRATION_STATUS_COLO w))
      \<lparr>to_src_file := Some To_src_file\<rparr>)"
  define w5 where "w5 = log_event (Colo_init_ram_cache (sint (ram_cache_ret w))) w4"
  have t5: "trace w5 = trace w @ take 4 (responder_prelude True (sint (ram_cache_ret w)))"
    "to_src_file w5 = Some To_src_file"
    by (simp_all add: w5_def w4_def migrate_set_state_def qemu_file_set_blocking_def
        log_event_def responder_prelude_def)
  have e5: "files w5 = files w" "async_state w5 = async_state w"
    "mis_state w5 =
       (if mis_state w = MIGRATION_STATUS_ACTIVE then MIGRATION_STATUS_COLO else mis_state w)"
    by (simp_all add: w5_def w4_def migrate_set_state_def qemu_file_set_blocking_def
        log_event_def)
  obtain r6 w6 where s6: "colo_put_cmd To_src_file COLO_MESSAGE_CHECKPOINT_READY w5 = (r6, w6)"
    by (cases "colo_put_cmd To_src_file COLO_MESSAGE_CHECKPOINT_READY w5")
  have t6: "trace w6 = trace w @ responder_prelude True (sint (ram_cache_ret w))"
    "to_src_file w6 = Some To_src_file"
    using colo_put_cmd_D[OF s6] t5
    by (simp_all add: msg_defs ctl_def responder_prelude_def)
  have "COLO_MESSAGE_CHECKPOINT_READY < COLO_MESSAGE__MAX" by (simp add: msg_defs)
  note d6 = colo_put_cmd_D[OF s6 this]
  have f6: "files w6 To_src_file = flush_file (files w To_src_file)"
    using d6 e5 by simp
  have e6: "files w6 From_src_file = files w From_src_file"
    "r6 = None \<longleftrightarrow> ready_sent w"
    "fst (read_state Mis_state w6) = MIGRATION_STATUS_COLO \<longleftrightarrow> loop_entered w"
    using colo_put_cmd_D[OF s6] e5
    by (simp_all add: msg_defs ctl_def ready_sent_def loop_entered_def read_state_def)
  have x6: "r6 = Some (Error_setg_errno
        (c_int_neg (sint (last_error (flush_file (files w To_src_file)))))
        ''Can't put COLO command'' [])" if "r6 \<noteq> None"
  proof -
    from d6 that have "r6 = Some (Error_setg_errno
        (c_int_neg (sint (last_error (files w6 To_src_file)))) ''Can't put COLO command'' [])"
      by blast
    then show ?thesis by (simp only: f6)
  qed
  have start: "colo_process_incoming_thread w =
     (if sint (ram_cache_ret w) < 0
      then Some (colo_process_incoming_thread_out None
                   (error_report ''Failed to initialize ram cache'' w5))
      else case r6 of
             Some e \<Rightarrow> Some (colo_process_incoming_thread_out (Some e) w6)
           | None \<Rightarrow>
               (case colo_incoming_loop w6 of
                  None \<Rightarrow> None
                | Some (local_err, w7) \<Rightarrow>
                    Some (colo_process_incoming_thread_out local_err w7)))"
    using rp s6
    by (simp add: colo_process_incoming_thread_def qemu_file_get_return_path_def Let_def
        colo_init_ram_cache_def w4_def w5_def migrate_set_state_def qemu_file_set_blocking_def
        log_event_def split: option.splits)
  have out: "trace (colo_process_incoming_thread_out r v) =
      trace v @ (case r of None \<Rightarrow> [] | Some e \<Rightarrow> [Error_report_err e]) @ responder_teardown True"
    if "to_src_file v = Some To_src_file" for r v
    using that
    by (simp add: colo_process_incoming_thread_out_def prim_defs colo_release_ram_cache_def
        migration_incoming_exit_colo_def responder_teardown_def Let_def split: option.splits)
  show ?thesis
  proof (cases "sint (ram_cache_ret w) < 0")
    case True
    then show ?thesis using start t5 rp out[of "error_report ''Failed to initialize ram cache'' w5" None]
      by (intro exI[of _ "the (colo_process_incoming_thread w)"] exI[of _ 4] exI[of _ 0] exI[of _ 0]
          exI[of _ "[Error_report ''Failed to initialize ram cache'']"])
        (simp add: prim_defs)
  next
    case ram: False
    show ?thesis
    proof (cases r6)
      case (Some e)
      then show ?thesis using start t6 rp ram out[of w6 "Some e"] e6(2) x6
        by (intro exI[of _ "the (colo_process_incoming_thread w)"] exI[of _ 6] exI[of _ 0] exI[of _ 0]
            exI[of _ "[Error_report_err e]"])
          (simp add: responder_prelude_def)
    next
      case r6: None
      from incoming_loop_shape[of w6] obtain r w7 n k where
        l: "colo_incoming_loop w6 = Some (r, w7)"
          "trace w7 = trace w6 @ concat (replicate n responder_calls) @ take k responder_calls"
          "case r of None \<Rightarrow> k = 0 | Some e \<Rightarrow> k \<in> {1, 3, 4, 6, 8}"
          "to_src_file w7 = to_src_file w6"
          "fst (read_state Mis_state w6) = MIGRATION_STATUS_COLO \<longrightarrow> 0 < n + k"
          "map fst (take (2 * n) (rx (files w6 From_src_file))) =
             concat (replicate n [COLO_MESSAGE_CHECKPOINT_REQUEST, COLO_MESSAGE_VMSTATE_SEND])"
        by blast
      have idle: "n = 0 \<and> k = 0" if "\<not> loop_entered w"
      proof -
        obtain st v where rs: "read_state Mis_state w6 = (st, v)"
          by (cases "read_state Mis_state w6")
        with that e6(3) have "st \<noteq> MIGRATION_STATUS_COLO" by simp
        with rs have "colo_incoming_loop w6 = Some (None, v)"
          by (simp add: colo_incoming_loop.simps[of w6])
        with l(1,2) read_state_frame[OF rs] have
          "concat (replicate n responder_calls) @ take k responder_calls = []" by simp
        then have "n = 0 \<or> responder_calls = []" and k: "take k responder_calls = []"
          by auto
        then have "n = 0" by (simp add: responder_calls_def)
        moreover from k have "k = 0" by (simp add: responder_calls_def)
        ultimately show ?thesis by simp
      qed
      define rep where "rep = (case r of None \<Rightarrow> [] | Some e \<Rightarrow> [Error_report_err e])"
      have th: "colo_process_incoming_thread w = Some (colo_process_incoming_thread_out r w7)"
        using start ram r6 l(1) by simp
      have tr: "trace (colo_process_incoming_thread_out r w7) =
          trace w @ take 6 (responder_prelude True (sint (ram_cache_ret w))) @
          concat (replicate n responder_calls) @ take k responder_calls @ rep @
          responder_teardown True"
        using out[of w7 r] l(2,4) t6 by (simp add: rep_def responder_prelude_def)
      have kb: "k \<in> {0, 1, 3, 4, 6, 8}" "length rep \<le> 1" "list_all is_report rep"
        "if k = 0 then rep = [] else (\<exists>e. rep = [Error_report_err e])"
        using l(3) by (cases r; auto simp add: rep_def)+
      have le: "if loop_entered w then 0 < n + k else n = 0 \<and> k = 0"
        using l(5) e6(3) idle by simp
      have rs: "ready_sent w" using e6(2) r6 by simp
      have mp: "map fst (take (2 * n) (rx (files w From_src_file))) =
          concat (replicate n [COLO_MESSAGE_CHECKPOINT_REQUEST, COLO_MESSAGE_VMSTATE_SEND])"
        using l(6) e6(1) by simp
      show ?thesis
        using th tr kb le rs mp rp ram
        by (intro exI[of _ "colo_process_incoming_thread_out r w7"] exI[of _ 6] exI[of _ n]
            exI[of _ k] exI[of _ rep]) simp
    qed
  qed
qed

section \<open>Reading the log\<close>

text \<open>
  \<open>new_events w w'\<close> is what a run that starts in \<open>w\<close> and ends in \<open>w'\<close> has added to
  the log. \<open>is_cleanup\<close> marks the events of the exit path of the transaction (the
  error reports, the closing of a file, an open that failed), \<open>is_stop_or_start\<close> the
  two calls of the guest's execution control.
\<close>

definition new_events :: "world \<Rightarrow> world \<Rightarrow> event list" where
  "new_events w w' = drop (length (trace w)) (trace w')"

fun is_cleanup :: "event \<Rightarrow> bool" where
  "is_cleanup (Error_report m) = True"
| "is_cleanup (Error_report_err e) = True"
| "is_cleanup (Fclose f) = True"
| "is_cleanup (Bufopen b) = (\<not> b)"
| "is_cleanup e = False"

fun is_stop_or_start :: "event \<Rightarrow> bool" where
  "is_stop_or_start (Vm_stop_force_state r) = True"
| "is_stop_or_start Vm_start = True"
| "is_stop_or_start e = False"

lemma cleanup_calls: "filter is_cleanup (checkpoint_calls d) = []"
  by (simp add: checkpoint_calls_def)

lemma filter_not_nil: "filter P xs = [] \<Longrightarrow> filter (\<lambda>x. \<not> P x) xs = xs"
  by (induction xs) (auto split: if_splits)

lemma calls_not_cleanup:
  "filter (\<lambda>e. \<not> is_cleanup e) (take k (checkpoint_calls d)) = take k (checkpoint_calls d)"
  by (rule filter_not_nil) (rule filter_take_nil[OF cleanup_calls])

lemma calls_not_cleanup_all:
  "filter (\<lambda>e. \<not> is_cleanup e) (checkpoint_calls d) = checkpoint_calls d"
  by (rule filter_not_nil) (rule cleanup_calls)

lemma start_in_take:
  assumes "k \<le> 24"
  shows "Vm_start \<notin> set (take k (checkpoint_calls d))"
proof -
  from assms have "set (take k (checkpoint_calls d)) \<subseteq> set (take 24 (checkpoint_calls d))"
    by (rule set_take_subset_set_take)
  moreover have "Vm_start \<notin> set (take 24 (checkpoint_calls d))"
    by (simp add: checkpoint_calls_def)
  ultimately show ?thesis by blast
qed

text \<open>The events of the responder's teardown.\<close>

fun teardown_event :: "event \<Rightarrow> bool" where
  "teardown_event Colo_release_ram_cache = True"
| "teardown_event (Fclose f) = True"
| "teardown_event Migration_incoming_exit_colo = True"
| "teardown_event e = False"

lemma teardown_calls:
  "filter teardown_event (responder_prelude b c) = []"
  "filter teardown_event responder_calls = []"
  by (simp_all add: responder_prelude_def responder_calls_def)

lemma teardown_concat: "filter teardown_event (concat (replicate n responder_calls)) = []"
  by (induction n) (simp_all add: teardown_calls)

lemma teardown_reports: "list_all is_report rep \<Longrightarrow> filter teardown_event rep = []"
proof (induction rep)
  case Nil
  then show ?case by simp
next
  case (Cons e rep)
  then have e: "is_report e" and r: "list_all is_report rep" by simp_all
  from e have "\<not> teardown_event e" by (cases e) simp_all
  with Cons.IH[OF r] show ?case by simp
qed


section \<open>Scenarios\<close>

text \<open>
  Concrete worlds for the examples below. In \<open>world0\<close> no channel has anything to
  deliver and no operation fails; the snapshot serializer writes four bytes in its three
  calls; the guest runs. The others differ from it in what the peer sends and in which
  flush fails.
\<close>

definition file0 :: QEMUFile where
  "file0 = \<lparr>last_error = 0, pending = [], rx = [], flush_errs = []\<rparr>"

definition world0 :: world where
  "world0 =
     \<lparr>state = MIGRATION_STATUS_COLO, from_dst_file = Some From_dst_file,
      params_blk = True, params_shared = True,
      mis_state = MIGRATION_STATUS_ACTIVE, to_src_file = None,
      files = (\<lambda>f. file0),
      qsb = Some [], runstate = RUN_STATE_RUNNING,
      return_path_ok = True, qsb_create_ok = True, bufopen_ok = [],
      savevm_out = [[1], [2, 3], [4]], ram_cache_ret = 0, async_state = [], trace = []\<rparr>"

text \<open>The secondary answers every step of one transaction.\<close>

definition world_acked :: world where
  "world_acked = world0\<lparr>files := (\<lambda>f. file0)(From_dst_file := file0\<lparr>rx :=
     [(COLO_MESSAGE_CHECKPOINT_REPLY, 0), (COLO_MESSAGE_VMSTATE_RECEIVED, 0),
      (COLO_MESSAGE_VMSTATE_LOADED, 0)]\<rparr>)\<rparr>"

text \<open>The first flush of the outbound channel fails with \<^verbatim>\<open>-EPIPE\<close> (-32).\<close>

definition world_broken_pipe :: world where
  "world_broken_pipe = world0\<lparr>files := (\<lambda>f. file0)(To_dst_file := file0\<lparr>flush_errs := [- 32]\<rparr>)\<rparr>"

text \<open>
  The secondary replies to the request; the outbound channel breaks at its third flush,
  which is the one that sends \<^verbatim>\<open>VMSTATE_SIZE\<close>.
\<close>

definition world_size_fails :: world where
  "world_size_fails = world0\<lparr>files := (\<lambda>f. file0)
     (From_dst_file := file0\<lparr>rx := [(COLO_MESSAGE_CHECKPOINT_REPLY, 0)]\<rparr>,
      To_dst_file := file0\<lparr>flush_errs := [0, 0, - 32]\<rparr>)\<rparr>"

text \<open>The secondary replies to the request; the staging buffer cannot be opened.\<close>

definition world_no_bufopen :: world where
  "world_no_bufopen = world0\<lparr>bufopen_ok := [False],
     files := (\<lambda>f. file0)(From_dst_file := file0\<lparr>rx := [(COLO_MESSAGE_CHECKPOINT_REPLY, 0)]\<rparr>)\<rparr>"

text \<open>
  The secondary replies to the request and then goes away: the connection is closed when
  the primary waits for \<^verbatim>\<open>VMSTATE_RECEIVED\<close>.
\<close>

definition world_unacked :: world where
  "world_unacked = world0\<lparr>files := (\<lambda>f. file0)
     (From_dst_file := file0\<lparr>rx := [(COLO_MESSAGE_CHECKPOINT_REPLY, 0)]\<rparr>)\<rparr>"

text \<open>
  The secondary replies to the request and then sends \<^verbatim>\<open>VMSTATE_LOADED\<close> where
  \<^verbatim>\<open>VMSTATE_RECEIVED\<close> is due.
\<close>

definition world_wrong_ack :: world where
  "world_wrong_ack = world0\<lparr>files := (\<lambda>f. file0)
     (From_dst_file := file0\<lparr>rx :=
        [(COLO_MESSAGE_CHECKPOINT_REPLY, 0), (COLO_MESSAGE_VMSTATE_LOADED, 0)]\<rparr>)\<rparr>"

text \<open>No return path can be opened.\<close>

definition world_no_return_path :: world where
  "world_no_return_path = world0\<lparr>from_dst_file := None, return_path_ok := False\<rparr>"


text \<open>
  The secondary's side: the primary runs one transaction and then sends
  \<^verbatim>\<open>VMSTATE_LOADED\<close>, which it never sends.
\<close>

definition world_responder :: world where
  "world_responder = world0\<lparr>files := (\<lambda>f. file0)(From_src_file := file0\<lparr>rx :=
     [(COLO_MESSAGE_CHECKPOINT_REQUEST, 0), (COLO_MESSAGE_VMSTATE_SEND, 0),
      (COLO_MESSAGE_VMSTATE_LOADED, 0)]\<rparr>)\<rparr>"

text \<open>The primary sends \<^verbatim>\<open>VMSTATE_LOADED\<close> where a request is due.\<close>

definition world_stray :: world where
  "world_stray = world0\<lparr>files := (\<lambda>f. file0)(From_src_file := file0\<lparr>rx :=
     [(COLO_MESSAGE_VMSTATE_LOADED, 0)]\<rparr>)\<rparr>"

text \<open>The peer sends the ordinal 9, and a request where a reply is due.\<close>

definition world_ordinal9 :: world where
  "world_ordinal9 = world0\<lparr>files := (\<lambda>f. file0)(From_dst_file := file0\<lparr>rx := [(9, 0)]\<rparr>)\<rparr>"

text \<open>The read of the return path fails, and the error the channel holds is \<^verbatim>\<open>INT_MIN\<close>.\<close>

definition world_int_min :: world where
  "world_int_min = world0\<lparr>files := (\<lambda>f. file0)(From_dst_file := file0\<lparr>rx :=
     [(0, - 2147483648)]\<rparr>)\<rparr>"

definition world_request_for_reply :: world where
  "world_request_for_reply = world0\<lparr>files := (\<lambda>f. file0)(From_dst_file := file0\<lparr>rx :=
     [(COLO_MESSAGE_CHECKPOINT_REQUEST, 0)]\<rparr>)\<rparr>"

lemmas weak_congs = let_weak_cong prod.case_cong_weak option.case_cong_weak
  bool.case_cong_weak list.case_cong_weak

lemmas chan_defs = colo_put_cmd_def colo_put_cmd_value_def colo_get_cmd_def
  colo_get_check_cmd_def colo_wait_handle_cmd_def

lemmas file_defs = flush_file_def recv_file_def recv_value_def set_error_def

lemmas tx_defs = colo_do_checkpoint_transaction_def colo_do_checkpoint_transaction_out_def
  qemu_bufopen_def

lemmas eval_defs = tx_defs chan_defs prim_defs file_defs msg_defs qsb_data_def Let_def
  word_le_nat_alt new_events_def world0_def file0_def c_int_neg_def

lemma tx_acked:
  "fst (colo_do_checkpoint_transaction world_acked) = 0"
  "new_events world_acked (snd (colo_do_checkpoint_transaction world_acked)) =
     checkpoint_calls [1, 2, 3, 4] @ [Fclose Trans_file]"
  "qsb_data (snd (colo_do_checkpoint_transaction world_acked)) = [1, 2, 3, 4]"
  by (simp_all add: world_acked_def eval_defs checkpoint_calls_def cong: weak_congs)

lemma tx_broken_pipe:
  "fst (colo_do_checkpoint_transaction world_broken_pipe) = - 1"
  "new_events world_broken_pipe (snd (colo_do_checkpoint_transaction world_broken_pipe)) =
     [Put_be32 To_dst_file COLO_MESSAGE_CHECKPOINT_REQUEST, Fflush To_dst_file,
      Error_report_err (Error_setg_errno 32 ''Can't put COLO command'' [])]"
  "runstate (snd (colo_do_checkpoint_transaction world_broken_pipe)) = RUN_STATE_RUNNING"
  by (simp_all add: world_broken_pipe_def eval_defs cong: weak_congs)

lemma tx_size_fails:
  "fst (colo_do_checkpoint_transaction world_size_fails) = - 1"
  "new_events world_size_fails (snd (colo_do_checkpoint_transaction world_size_fails)) =
     take 18 (checkpoint_calls []) @
     [Error_report_err (Error_setg_errno 32 ''Can't put COLO command'' []), Fclose Trans_file]"
  "runstate (snd (colo_do_checkpoint_transaction world_size_fails)) = RUN_STATE_COLO"
  by (simp_all add: world_size_fails_def eval_defs checkpoint_calls_def cong: weak_congs)

lemma tx_no_bufopen:
  "fst (colo_do_checkpoint_transaction world_no_bufopen) = - 1"
  "new_events world_no_bufopen (snd (colo_do_checkpoint_transaction world_no_bufopen)) =
     take 4 (checkpoint_calls []) @
     [Bufopen False, Error_report ''Open colo buffer for write failed'']"
  "runstate (snd (colo_do_checkpoint_transaction world_no_bufopen)) = RUN_STATE_RUNNING"
  by (simp_all add: world_no_bufopen_def eval_defs checkpoint_calls_def cong: weak_congs)

lemmas sec_defs = colo_incoming_iteration_def colo_process_incoming_thread_def
  colo_process_incoming_thread_out_def colo_incoming_loop.simps read_state_def next_state_def
  migrate_set_state_def qemu_file_get_return_path_def qemu_file_set_blocking_def
  colo_init_ram_cache_def colo_release_ram_cache_def migration_incoming_exit_colo_def

lemmas phase_defs = colo_process_checkpoint_def colo_process_checkpoint_out_def
  colo_checkpoint_loop.simps read_state_def next_state_def migrate_set_state_def
  qemu_file_get_return_path_def qsb_create_def qsb_free_def

lemma loop_unacked:
  "count_list (new_events world_unacked (colo_checkpoint_loop world_unacked))
     (Put_be32 To_dst_file COLO_MESSAGE_CHECKPOINT_REQUEST) = 2"
  by (simp add: world_unacked_def eval_defs phase_defs cong: weak_congs)

lemma iteration_responder:
  "fst (colo_incoming_iteration world_responder) = Iter_next"
  by (simp add: world_responder_def eval_defs sec_defs cong: weak_congs)

lemma get_cmd_stray:
  "fst (colo_get_cmd From_src_file world_stray) = COLO_MESSAGE_VMSTATE_LOADED"
  "fst (snd (colo_get_cmd From_src_file world_stray)) = None"
  by (simp_all add: world_stray_def eval_defs cong: weak_congs)

lemma thread_no_return_path:
  "map_option (new_events world_no_return_path)
     (colo_process_incoming_thread world_no_return_path) =
     Some (take 2 (responder_prelude False 0) @
       [Error_report ''colo incoming thread: Open QEMUFile to_src_file failed''] @
       responder_teardown False)"
  by (simp add: world_no_return_path_def eval_defs sec_defs responder_prelude_def
      responder_teardown_def cong: weak_congs)

section \<open>The claims about the primary's transaction\<close>

text \<open>
  \<open>checkpoint_calls d\<close> (defined above) spells the order of steps that claim C1 gives:
  the request is sent and flushed, the reply is read, the staging buffer is truncated to
  zero and opened for write, the guest is stopped under the iothread lock, the VM state
  is serialized (header, begin, complete) and the buffer file flushed,
  \<^verbatim>\<open>VMSTATE_SEND\<close> is sent, then \<^verbatim>\<open>VMSTATE_SIZE\<close> with the byte length of the
  buffer \<open>d\<close>, then the content \<open>d\<close> itself, two acknowledgments are read, and the guest
  is resumed under the lock.

  Claim C1: every run of the primary checkpoint transaction performs its steps in that
  order, and on a fully successful run the guest is stopped once and resumed once, in
  that order. Every run performs an initial part of \<open>checkpoint_calls\<close> (what it adds
  besides are the events of its exit path), where \<open>d\<close> is the content of the staging
  buffer. A run is fully successful when it returns 0 and has reported no error, which
  is the case exactly when it reaches the last step, the resume: then it has performed
  exactly \<open>checkpoint_calls d\<close> and closed the buffer file, the only calls of the
  execution control are one stop followed by one start, the guest runs, and the three
  commands it read were \<^verbatim>\<open>CHECKPOINT_REPLY\<close>, \<^verbatim>\<open>VMSTATE_RECEIVED\<close> and
  \<^verbatim>\<open>VMSTATE_LOADED\<close>, so the resume comes only after both acknowledgments.
\<close>

theorem checkpoint_transaction_order:
  assumes "colo_do_checkpoint_transaction w = (ret, w')"
  shows "prefix (filter (\<lambda>e. \<not> is_cleanup e) (new_events w w'))
           (checkpoint_calls (qsb_data w')) \<and>
         (Vm_start \<in> set (new_events w w') \<longleftrightarrow>
            ret = 0 \<and> filter is_report (new_events w w') = []) \<and>
         (Vm_start \<in> set (new_events w w') \<longrightarrow>
            new_events w w' = checkpoint_calls (qsb_data w') @ [Fclose Trans_file] \<and>
            filter is_stop_or_start (new_events w w') =
              [Vm_stop_force_state RUN_STATE_COLO, Vm_start] \<and>
            runstate w' = RUN_STATE_RUNNING \<and>
            map fst (take 3 (rx (files w From_dst_file))) =
              [COLO_MESSAGE_CHECKPOINT_REPLY, COLO_MESSAGE_VMSTATE_RECEIVED,
               COLO_MESSAGE_VMSTATE_LOADED])"
  using assms
proof (cases rule: tx_cases)
  case (finished e1 e2 e3)
  then show ?thesis
    by (simp add: new_events_def calls_not_cleanup_all) (simp add: checkpoint_calls_def)
qed (simp_all add: new_events_def calls_not_cleanup take_is_prefix start_in_take)

theorem checkpoint_transaction_order_witness:
  "Vm_start \<in> set (new_events world_acked (snd (colo_do_checkpoint_transaction world_acked))) \<and>
   fst (colo_do_checkpoint_transaction world_acked) = 0 \<and>
   filter is_stop_or_start
     (new_events world_acked (snd (colo_do_checkpoint_transaction world_acked))) =
     [Vm_stop_force_state RUN_STATE_COLO, Vm_start]"
proof -
  have "Vm_start \<in> set (new_events world_acked (snd (colo_do_checkpoint_transaction world_acked)))"
    by (simp add: tx_acked checkpoint_calls_def)
  with checkpoint_transaction_order[OF prod.collapse[symmetric], of world_acked]
  show ?thesis by blast
qed

text \<open>
  Claim C2: when a failure occurs after the guest has been stopped and before
  \<^verbatim>\<open>VMSTATE_LOADED\<close> has been matched, the transaction returns an error and the guest
  is not resumed. The code keeps the guest stopped, but it does not return an error when
  the failure is at one of the two acknowledgments: \<^verbatim>\<open>ret\<close>, which starts as -1, has
  been overwritten with the result of \<^verbatim>\<open>qemu_file_get_error\<close> after the payload was
  sent, and that result is not negative on this path. In \<open>world_unacked\<close> the connection
  is closed while the primary waits for \<^verbatim>\<open>VMSTATE_RECEIVED\<close>, in \<open>world_wrong_ack\<close>
  the secondary sends the wrong command there: both transactions report the error,
  leave the guest in \<^verbatim>\<open>RUN_STATE_COLO\<close> and return 0. The loop of the phase,
  which leaves only on a negative result, then starts another transaction: it sends
  \<^verbatim>\<open>CHECKPOINT_REQUEST\<close> a second time.
\<close>

theorem unacknowledged_transaction_returns_zero:
  "fst (colo_do_checkpoint_transaction world_unacked) = 0 \<and>
   runstate (snd (colo_do_checkpoint_transaction world_unacked)) = RUN_STATE_COLO \<and>
   new_events world_unacked (snd (colo_do_checkpoint_transaction world_unacked)) =
     take 23 (checkpoint_calls [1, 2, 3, 4]) @
     [Error_report_err (Error_setg_errno 5 ''Can't get COLO command'' []), Fclose Trans_file] \<and>
   fst (colo_do_checkpoint_transaction world_wrong_ack) = 0 \<and>
   runstate (snd (colo_do_checkpoint_transaction world_wrong_ack)) = RUN_STATE_COLO \<and>
   new_events world_wrong_ack (snd (colo_do_checkpoint_transaction world_wrong_ack)) =
     take 23 (checkpoint_calls [1, 2, 3, 4]) @
     [Error_report_err (Error_setg ''Unexpected COLO command %d, expected %d''
        [Arg_d COLO_MESSAGE_VMSTATE_RECEIVED, Arg_d COLO_MESSAGE_VMSTATE_LOADED]),
      Fclose Trans_file] \<and>
   count_list (new_events world_unacked (colo_checkpoint_loop world_unacked))
     (Put_be32 To_dst_file COLO_MESSAGE_CHECKPOINT_REQUEST) = 2"
  using loop_unacked
  by (simp add: world_unacked_def world_wrong_ack_def eval_defs checkpoint_calls_def
      cong: weak_congs)

text \<open>
  Claim C3, as stated: whenever the transaction returns failure the guest is left
  stopped if the failure occurred before step 10, also when it occurred at steps 1 to 3,
  before the call that stops the guest. In \<open>world_broken_pipe\<close> the guest runs and the
  first send fails: the transaction returns -1, it has not called the stop, and the
  guest still runs.
\<close>

theorem early_failure_guest_not_stopped:
  "fst (colo_do_checkpoint_transaction world_broken_pipe) < 0 \<and>
   runstate world_broken_pipe = RUN_STATE_RUNNING \<and>
   runstate (snd (colo_do_checkpoint_transaction world_broken_pipe)) = RUN_STATE_RUNNING \<and>
   filter is_stop_or_start
     (new_events world_broken_pipe (snd (colo_do_checkpoint_transaction world_broken_pipe))) = []"
  by (simp add: tx_broken_pipe) (simp add: world_broken_pipe_def world0_def)

text \<open>
  Claim C3, amended: whenever the transaction returns failure (a negative value), the
  guest has not been resumed, and its run state is as the failing step left it: when the
  failure occurred at steps 1 to 3 (the buffer file was not opened) the guest has not
  been stopped and its run state is what it was when the transaction began; when it
  occurred later the guest has been stopped and is in \<^verbatim>\<open>RUN_STATE_COLO\<close>.
\<close>

theorem failed_transaction_run_state:
  assumes "colo_do_checkpoint_transaction w = (ret, w')" and "ret < 0"
  shows "Vm_start \<notin> set (new_events w w') \<and>
         (if Bufopen True \<in> set (new_events w w')
          then Vm_stop_force_state RUN_STATE_COLO \<in> set (new_events w w') \<and>
               runstate w' = RUN_STATE_COLO
          else filter is_stop_or_start (new_events w w') = [] \<and> runstate w' = runstate w)"
  using assms
  by (cases rule: tx_cases) (simp_all add: new_events_def checkpoint_calls_def)

theorem failed_transaction_run_state_witness:
  "fst (colo_do_checkpoint_transaction world_size_fails) < 0 \<and>
   Bufopen True \<in> set (new_events world_size_fails
                         (snd (colo_do_checkpoint_transaction world_size_fails))) \<and>
   Vm_start \<notin> set (new_events world_size_fails
                       (snd (colo_do_checkpoint_transaction world_size_fails))) \<and>
   runstate (snd (colo_do_checkpoint_transaction world_size_fails)) = RUN_STATE_COLO"
proof -
  have neg: "fst (colo_do_checkpoint_transaction world_size_fails) < 0"
    by (simp add: tx_size_fails)
  have opened: "Bufopen True \<in> set (new_events world_size_fails
                         (snd (colo_do_checkpoint_transaction world_size_fails)))"
    by (simp add: tx_size_fails checkpoint_calls_def)
  from failed_transaction_run_state[OF prod.collapse[symmetric] neg] opened neg
  show ?thesis by presburger
qed

text \<open>
  Claim C10: in every execution of the transaction the write file over the staging
  buffer is closed exactly once before the function returns when it was opened, on every
  exit path, and is never closed when the open failed. The open succeeds at most once in
  a run, the file is closed as often as it was opened, the close is the last call of a
  run that opened the file, and a run whose open failed closes nothing.
\<close>

theorem trans_closed_iff_opened:
  assumes "colo_do_checkpoint_transaction w = (ret, w')"
  shows "count_list (new_events w w') (Fclose Trans_file) =
           count_list (new_events w w') (Bufopen True) \<and>
         count_list (new_events w w') (Bufopen True) \<le> 1 \<and>
         (Bufopen True \<in> set (new_events w w') \<longrightarrow>
            last (new_events w w') = Fclose Trans_file) \<and>
         (Bufopen False \<in> set (new_events w w') \<longrightarrow>
            filter is_cleanup (new_events w w') =
              [Bufopen False, Error_report ''Open colo buffer for write failed''])"
  using assms
  by (cases rule: tx_cases) (simp_all add: new_events_def checkpoint_calls_def)

theorem trans_closed_iff_opened_witness:
  "Bufopen True \<in> set (new_events world_size_fails
                         (snd (colo_do_checkpoint_transaction world_size_fails))) \<and>
   count_list (new_events world_size_fails
                 (snd (colo_do_checkpoint_transaction world_size_fails))) (Fclose Trans_file) = 1 \<and>
   last (new_events world_size_fails
           (snd (colo_do_checkpoint_transaction world_size_fails))) = Fclose Trans_file \<and>
   Bufopen False \<in> set (new_events world_no_bufopen
                          (snd (colo_do_checkpoint_transaction world_no_bufopen))) \<and>
   count_list (new_events world_no_bufopen
                 (snd (colo_do_checkpoint_transaction world_no_bufopen))) (Fclose Trans_file) = 0"
proof -
  have a: "Bufopen True \<in> set (new_events world_size_fails
                         (snd (colo_do_checkpoint_transaction world_size_fails)))"
    "count_list (new_events world_size_fails
                 (snd (colo_do_checkpoint_transaction world_size_fails))) (Bufopen True) = 1"
    by (simp_all add: tx_size_fails checkpoint_calls_def)
  have b: "Bufopen False \<in> set (new_events world_no_bufopen
                          (snd (colo_do_checkpoint_transaction world_no_bufopen)))"
    "count_list (new_events world_no_bufopen
                 (snd (colo_do_checkpoint_transaction world_no_bufopen))) (Bufopen True) = 0"
    by (simp_all add: tx_no_bufopen checkpoint_calls_def)
  from trans_closed_iff_opened[OF prod.collapse[symmetric], of world_size_fails]
    trans_closed_iff_opened[OF prod.collapse[symmetric], of world_no_bufopen] a b
  show ?thesis by presburger
qed

section \<open>The claims about the secondary's responder\<close>

text \<open>
  Claim C4: before its loop the responder obtains the return-path handle from the
  inbound channel, initializes the replication-state cache and sends
  \<^verbatim>\<open>CHECKPOINT_READY\<close>; then, on each iteration while the status is the
  checkpointing one, it receives a command that must be \<^verbatim>\<open>CHECKPOINT_REQUEST\<close> (any
  other decoded command is a protocol error that ends the loop) and on the success path
  sends \<^verbatim>\<open>CHECKPOINT_REPLY\<close>, receives and matches \<^verbatim>\<open>VMSTATE_SEND\<close>, and sends
  \<^verbatim>\<open>VMSTATE_RECEIVED\<close> and then \<^verbatim>\<open>VMSTATE_LOADED\<close>.

  Every run of the thread returns, and what it has called is the first \<open>j\<close> calls of
  \<open>responder_prelude\<close>, then \<open>n\<close> full passes \<open>responder_calls\<close> and the first
  \<open>k\<close> calls of one more, then the reports \<open>rep\<close>, then the teardown. The prelude
  stops after 2 calls, with the report of that failure, exactly when the return path
  cannot be opened, after 4 calls, with the report of that failure, exactly when the
  return path is open and the cache cannot be initialized, and is complete (6 calls,
  the last two sending \<^verbatim>\<open>CHECKPOINT_READY\<close>) otherwise; no pass begins after an
  incomplete prelude. When sending \<^verbatim>\<open>CHECKPOINT_READY\<close> fails, no pass begins and
  that error is reported. Otherwise the loop is entered: when the status is
  \<^verbatim>\<open>MIGRATION_STATUS_COLO\<close> at its head at least the first call of a pass is made,
  and no call of a pass is made when it is not; the commands read in the \<open>n\<close> full
  passes are \<^verbatim>\<open>CHECKPOINT_REQUEST\<close> and \<^verbatim>\<open>VMSTATE_SEND\<close> in turn; a last pass can
  only stop after a call that can fail (\<open>k\<close> is 1, 3, 4, 6 or 8), and exactly then one
  error is reported.

  An iteration that reaches the end of the body has called exactly \<open>responder_calls\<close>
  and the two commands it read were \<^verbatim>\<open>CHECKPOINT_REQUEST\<close> and \<^verbatim>\<open>VMSTATE_SEND\<close>;
  the loop then goes on from the world it left. An iteration that fails ends the loop
  with its error. An iteration that decodes any other command first leaves with the
  error for an unknown command, having sent nothing, and the loop ends with that error.
  The loop ends without an error when the status is not \<^verbatim>\<open>MIGRATION_STATUS_COLO\<close> at
  the head of an iteration.
\<close>

theorem responder_order:
  "(\<exists>w' j n k rep. colo_process_incoming_thread w = Some w' \<and>
      new_events w w' =
        take j (responder_prelude (return_path_ok w) (sint (ram_cache_ret w))) @
        concat (replicate n responder_calls) @ take k responder_calls @ rep @
        responder_teardown (return_path_ok w) \<and>
      j \<in> {2, 4, 6} \<and> (j < 6 \<longrightarrow> n = 0 \<and> k = 0) \<and> k \<in> {0, 1, 3, 4, 6, 8} \<and>
      length rep \<le> 1 \<and> list_all is_report rep \<and>
      j = (if \<not> return_path_ok w then 2 else if sint (ram_cache_ret w) < 0 then 4 else 6) \<and>
      (if \<not> return_path_ok w
       then rep = [Error_report ''colo incoming thread: Open QEMUFile to_src_file failed'']
       else if sint (ram_cache_ret w) < 0
       then rep = [Error_report ''Failed to initialize ram cache'']
       else if \<not> ready_sent w
       then n = 0 \<and> k = 0 \<and>
            rep = [Error_report_err (Error_setg_errno
                     (c_int_neg (sint (last_error (flush_file (files w To_src_file)))))
                     ''Can't put COLO command'' [])]
       else (if k = 0 then rep = [] else (\<exists>e. rep = [Error_report_err e])) \<and>
            (if loop_entered w then 0 < n + k else n = 0 \<and> k = 0) \<and>
            map fst (take (2 * n) (rx (files w From_src_file))) =
              concat (replicate n [COLO_MESSAGE_CHECKPOINT_REQUEST, COLO_MESSAGE_VMSTATE_SEND]))) \<and>
   (colo_incoming_iteration w1 = (Iter_next, w2) \<longrightarrow>
      new_events w1 w2 = responder_calls \<and>
      map fst (take 2 (rx (files w1 From_src_file))) =
        [COLO_MESSAGE_CHECKPOINT_REQUEST, COLO_MESSAGE_VMSTATE_SEND] \<and>
      (read_state Mis_state w0 = (MIGRATION_STATUS_COLO, w1) \<longrightarrow>
         colo_incoming_loop w0 = colo_incoming_loop w2)) \<and>
   (colo_incoming_iteration w1 = (Iter_out err, w2) \<and>
    read_state Mis_state w0 = (MIGRATION_STATUS_COLO, w1) \<longrightarrow>
      colo_incoming_loop w0 = Some (Some err, w2)) \<and>
   (colo_get_cmd From_src_file w1 = (cmd, None, w2) \<and> cmd \<noteq> COLO_MESSAGE_CHECKPOINT_REQUEST \<longrightarrow>
      colo_incoming_iteration w1 =
        (Iter_out (Error_setg ''Got unknown COLO command: %d'' [Arg_d cmd]), w2) \<and>
      (read_state Mis_state w0 = (MIGRATION_STATUS_COLO, w1) \<longrightarrow>
         colo_incoming_loop w0 =
           Some (Some (Error_setg ''Got unknown COLO command: %d'' [Arg_d cmd]), w2))) \<and>
   (read_state Mis_state w0 = (st, w1) \<and> st \<noteq> MIGRATION_STATUS_COLO \<longrightarrow>
      colo_incoming_loop w0 = Some (None, w1))"
proof -
  from thread_shape[of w] obtain w' j n k rep where
    s: "colo_process_incoming_thread w = Some w'"
      "trace w' = trace w @ take j (responder_prelude (return_path_ok w) (sint (ram_cache_ret w))) @
        concat (replicate n responder_calls) @ take k responder_calls @ rep @
        responder_teardown (return_path_ok w)"
    and t: "j \<in> {2, 4, 6} \<and> (j < 6 \<longrightarrow> n = 0 \<and> k = 0) \<and> k \<in> {0, 1, 3, 4, 6, 8} \<and>
      length rep \<le> 1 \<and> list_all is_report rep \<and>
      j = (if \<not> return_path_ok w then 2 else if sint (ram_cache_ret w) < 0 then 4 else 6) \<and>
      (if \<not> return_path_ok w
       then rep = [Error_report ''colo incoming thread: Open QEMUFile to_src_file failed'']
       else if sint (ram_cache_ret w) < 0
       then rep = [Error_report ''Failed to initialize ram cache'']
       else if \<not> ready_sent w
       then n = 0 \<and> k = 0 \<and>
            rep = [Error_report_err (Error_setg_errno
                     (c_int_neg (sint (last_error (flush_file (files w To_src_file)))))
                     ''Can't put COLO command'' [])]
       else (if k = 0 then rep = [] else (\<exists>e. rep = [Error_report_err e])) \<and>
            (if loop_entered w then 0 < n + k else n = 0 \<and> k = 0) \<and>
            map fst (take (2 * n) (rx (files w From_src_file))) =
              concat (replicate n [COLO_MESSAGE_CHECKPOINT_REQUEST, COLO_MESSAGE_VMSTATE_SEND]))"
    by blast
  from s(2) have n: "new_events w w' =
        take j (responder_prelude (return_path_ok w) (sint (ram_cache_ret w))) @
        concat (replicate n responder_calls) @ take k responder_calls @ rep @
        responder_teardown (return_path_ok w)"
    by (simp add: new_events_def)
  have a: "\<exists>w' j n k rep. colo_process_incoming_thread w = Some w' \<and>
      new_events w w' =
        take j (responder_prelude (return_path_ok w) (sint (ram_cache_ret w))) @
        concat (replicate n responder_calls) @ take k responder_calls @ rep @
        responder_teardown (return_path_ok w) \<and>
      j \<in> {2, 4, 6} \<and> (j < 6 \<longrightarrow> n = 0 \<and> k = 0) \<and> k \<in> {0, 1, 3, 4, 6, 8} \<and>
      length rep \<le> 1 \<and> list_all is_report rep \<and>
      j = (if \<not> return_path_ok w then 2 else if sint (ram_cache_ret w) < 0 then 4 else 6) \<and>
      (if \<not> return_path_ok w
       then rep = [Error_report ''colo incoming thread: Open QEMUFile to_src_file failed'']
       else if sint (ram_cache_ret w) < 0
       then rep = [Error_report ''Failed to initialize ram cache'']
       else if \<not> ready_sent w
       then n = 0 \<and> k = 0 \<and>
            rep = [Error_report_err (Error_setg_errno
                     (c_int_neg (sint (last_error (flush_file (files w To_src_file)))))
                     ''Can't put COLO command'' [])]
       else (if k = 0 then rep = [] else (\<exists>e. rep = [Error_report_err e])) \<and>
            (if loop_entered w then 0 < n + k else n = 0 \<and> k = 0) \<and>
            map fst (take (2 * n) (rx (files w From_src_file))) =
              concat (replicate n [COLO_MESSAGE_CHECKPOINT_REQUEST, COLO_MESSAGE_VMSTATE_SEND]))"
    by (rule exI[of _ w'], rule exI[of _ j], rule exI[of _ n], rule exI[of _ k],
        rule exI[of _ rep], rule conjI[OF s(1)], rule conjI[OF n], rule t)
  have b: "new_events w1 w2 = responder_calls \<and>
      map fst (take 2 (rx (files w1 From_src_file))) =
        [COLO_MESSAGE_CHECKPOINT_REQUEST, COLO_MESSAGE_VMSTATE_SEND]"
    if "colo_incoming_iteration w1 = (Iter_next, w2)"
    using that by (cases rule: iteration_cases) (simp_all add: new_events_def)
  have b': "colo_incoming_loop w0 = colo_incoming_loop w2"
    if "colo_incoming_iteration w1 = (Iter_next, w2)"
      "read_state Mis_state w0 = (MIGRATION_STATUS_COLO, w1)"
    using that by (simp add: colo_incoming_loop.simps[of w0])
  have f: "colo_incoming_loop w0 = Some (Some err, w2)"
    if "colo_incoming_iteration w1 = (Iter_out err, w2)"
      "read_state Mis_state w0 = (MIGRATION_STATUS_COLO, w1)"
    using that by (simp add: colo_incoming_loop.simps[of w0])
  have c: "colo_incoming_iteration w1 =
        (Iter_out (Error_setg ''Got unknown COLO command: %d'' [Arg_d cmd]), w2)"
    if "colo_get_cmd From_src_file w1 = (cmd, None, w2)" "cmd \<noteq> COLO_MESSAGE_CHECKPOINT_REQUEST"
    using that by (simp add: colo_incoming_iteration_def colo_wait_handle_cmd_def)
  have d: "colo_incoming_loop w0 =
           Some (Some (Error_setg ''Got unknown COLO command: %d'' [Arg_d cmd]), w2)"
    if "colo_get_cmd From_src_file w1 = (cmd, None, w2)" "cmd \<noteq> COLO_MESSAGE_CHECKPOINT_REQUEST"
      "read_state Mis_state w0 = (MIGRATION_STATUS_COLO, w1)"
    using that c by (simp add: colo_incoming_loop.simps[of w0])
  have e: "colo_incoming_loop w0 = Some (None, w1)"
    if "read_state Mis_state w0 = (st, w1)" "st \<noteq> MIGRATION_STATUS_COLO"
    using that by (simp add: colo_incoming_loop.simps[of w0])
  show ?thesis
    apply (rule conjI[OF a])
    using b b' f c d e by blast
qed

theorem responder_order_witness:
  "return_path_ok world_responder \<and> \<not> sint (ram_cache_ret world_responder) < 0 \<and>
   ready_sent world_responder \<and> loop_entered world_responder \<and>
   map_option (new_events world_responder) (colo_process_incoming_thread world_responder) =
     Some (responder_prelude True 0 @ responder_calls @ take 1 responder_calls @
           [Error_report_err
              (Error_setg ''Got unknown COLO command: %d'' [Arg_d COLO_MESSAGE_VMSTATE_LOADED])] @
           responder_teardown True) \<and>
   (\<exists>w' n k rep. colo_process_incoming_thread world_responder = Some w' \<and>
      new_events world_responder w' =
        responder_prelude True 0 @ concat (replicate n responder_calls) @
        take k responder_calls @ rep @ responder_teardown True \<and>
      0 < n + k \<and> k \<in> {0, 1, 3, 4, 6, 8} \<and>
      (if k = 0 then rep = [] else (\<exists>e. rep = [Error_report_err e])) \<and>
      map fst (take (2 * n) (rx (files world_responder From_src_file))) =
        concat (replicate n [COLO_MESSAGE_CHECKPOINT_REQUEST, COLO_MESSAGE_VMSTATE_SEND])) \<and>
   fst (colo_incoming_iteration world_responder) = Iter_next \<and>
   new_events world_responder (snd (colo_incoming_iteration world_responder)) = responder_calls \<and>
   fst (snd (colo_get_cmd From_src_file world_stray)) = None \<and>
   fst (colo_incoming_iteration world_stray) =
     Iter_out (Error_setg ''Got unknown COLO command: %d'' [Arg_d COLO_MESSAGE_VMSTATE_LOADED])"
proof -
  have h: "return_path_ok world_responder" "\<not> sint (ram_cache_ret world_responder) < 0"
    "ready_sent world_responder" "loop_entered world_responder"
    "sint (ram_cache_ret world_responder) = 0"
    by (simp_all add: world_responder_def world0_def file0_def ready_sent_def loop_entered_def
        flush_file_def next_state_def)
  have run: "map_option (new_events world_responder)
      (colo_process_incoming_thread world_responder) =
     Some (responder_prelude True 0 @ responder_calls @ take 1 responder_calls @
           [Error_report_err
              (Error_setg ''Got unknown COLO command: %d'' [Arg_d COLO_MESSAGE_VMSTATE_LOADED])] @
           responder_teardown True)"
    by (simp add: world_responder_def eval_defs sec_defs responder_prelude_def
        responder_calls_def responder_teardown_def cong: weak_congs)
  have a: "colo_incoming_iteration world_responder =
      (Iter_next, snd (colo_incoming_iteration world_responder))"
    using iteration_responder by (metis prod.collapse)
  have b: "colo_get_cmd From_src_file world_stray =
      (COLO_MESSAGE_VMSTATE_LOADED, None, snd (snd (colo_get_cmd From_src_file world_stray)))"
    using get_cmd_stray by (metis prod.collapse)
  have c: "COLO_MESSAGE_VMSTATE_LOADED \<noteq> COLO_MESSAGE_CHECKPOINT_REQUEST"
    by (simp add: msg_defs)
  note r = responder_order[of world_responder world_responder
      "snd (colo_incoming_iteration world_responder)" world0 "Error_setg [] []"
      COLO_MESSAGE_VMSTATE_LOADED MIGRATION_STATUS_COLO]
  from conjunct1[OF r] obtain w' j n k rep where
    o: "colo_process_incoming_thread world_responder = Some w'"
      "new_events world_responder w' =
        take j (responder_prelude (return_path_ok world_responder)
                  (sint (ram_cache_ret world_responder))) @
        concat (replicate n responder_calls) @ take k responder_calls @ rep @
        responder_teardown (return_path_ok world_responder)"
      "k \<in> {0, 1, 3, 4, 6, 8}"
      "j = (if \<not> return_path_ok world_responder then 2
            else if sint (ram_cache_ret world_responder) < 0 then 4 else 6)"
      "if \<not> return_path_ok world_responder
       then rep = [Error_report ''colo incoming thread: Open QEMUFile to_src_file failed'']
       else if sint (ram_cache_ret world_responder) < 0
       then rep = [Error_report ''Failed to initialize ram cache'']
       else if \<not> ready_sent world_responder
       then n = 0 \<and> k = 0 \<and>
            rep = [Error_report_err (Error_setg_errno
                     (c_int_neg (sint (last_error (flush_file (files world_responder To_src_file)))))
                     ''Can't put COLO command'' [])]
       else (if k = 0 then rep = [] else (\<exists>e. rep = [Error_report_err e])) \<and>
            (if loop_entered world_responder then 0 < n + k else n = 0 \<and> k = 0) \<and>
            map fst (take (2 * n) (rx (files world_responder From_src_file))) =
              concat (replicate n [COLO_MESSAGE_CHECKPOINT_REQUEST, COLO_MESSAGE_VMSTATE_SEND])"
    by blast
  from o(4) h have j: "j = 6" by simp
  from o(5) h have rest: "if k = 0 then rep = [] else (\<exists>e. rep = [Error_report_err e])"
    "0 < n + k"
    "map fst (take (2 * n) (rx (files world_responder From_src_file))) =
       concat (replicate n [COLO_MESSAGE_CHECKPOINT_REQUEST, COLO_MESSAGE_VMSTATE_SEND])"
    by simp_all
  from o(2) h j have ne: "new_events world_responder w' =
        responder_prelude True 0 @ concat (replicate n responder_calls) @
        take k responder_calls @ rep @ responder_teardown True"
    by (simp add: responder_prelude_def)
  have r0: "\<exists>w' n k rep. colo_process_incoming_thread world_responder = Some w' \<and>
      new_events world_responder w' =
        responder_prelude True 0 @ concat (replicate n responder_calls) @
        take k responder_calls @ rep @ responder_teardown True \<and>
      0 < n + k \<and> k \<in> {0, 1, 3, 4, 6, 8} \<and>
      (if k = 0 then rep = [] else (\<exists>e. rep = [Error_report_err e])) \<and>
      map fst (take (2 * n) (rx (files world_responder From_src_file))) =
        concat (replicate n [COLO_MESSAGE_CHECKPOINT_REQUEST, COLO_MESSAGE_VMSTATE_SEND])"
    by (rule exI[of _ w'], rule exI[of _ n], rule exI[of _ k], rule exI[of _ rep],
        intro conjI, rule o(1), rule ne, rule rest(2), rule o(3), rule rest(1), rule rest(3))
  from r a
  have r1: "new_events world_responder (snd (colo_incoming_iteration world_responder)) =
      responder_calls" by blast
  from responder_order[of world0 world_stray "snd (snd (colo_get_cmd From_src_file world_stray))"
      world0 "Error_setg [] []" COLO_MESSAGE_VMSTATE_LOADED MIGRATION_STATUS_COLO] b c
  have r2: "colo_incoming_iteration world_stray =
      (Iter_out (Error_setg ''Got unknown COLO command: %d'' [Arg_d COLO_MESSAGE_VMSTATE_LOADED]),
       snd (snd (colo_get_cmd From_src_file world_stray)))" by blast
  from h(1-4) run r0 iteration_responder r1 get_cmd_stray(2) r2 show ?thesis
    by (intro conjI) simp_all
qed

text \<open>
  Claim C6, as stated: in every execution of the responder, also when the return-path
  channel could not be opened, the teardown releases the cache, closes the responder's
  channel handle and signals the end of the phase, each exactly once. In
  \<open>world_no_return_path\<close> the return path cannot be opened: the thread releases the
  cache and signals the end of the phase, and closes no file at all.
\<close>

theorem teardown_without_handle:
  "map_option (\<lambda>w'. filter teardown_event (new_events world_no_return_path w'))
     (colo_process_incoming_thread world_no_return_path) =
     Some [Colo_release_ram_cache, Migration_incoming_exit_colo] \<and>
   map_option (\<lambda>w'. count_list (new_events world_no_return_path w') (Fclose To_src_file))
     (colo_process_incoming_thread world_no_return_path) = Some 0"
proof -
  from thread_no_return_path obtain w' where
    w: "colo_process_incoming_thread world_no_return_path = Some w'"
      "new_events world_no_return_path w' =
         take 2 (responder_prelude False 0) @
         [Error_report ''colo incoming thread: Open QEMUFile to_src_file failed''] @
         responder_teardown False"
    by auto
  then show ?thesis
    by (simp add: responder_prelude_def responder_teardown_def)
qed

text \<open>
  Claim C6, amended: for every execution of the responder, whether its loop runs zero,
  one or many iterations and whichever step failed, the thread returns and the teardown
  occurs exactly once, as the last thing it does: the replication-state cache is
  released once, the return-path handle is closed once when it had been opened and no
  handle is closed when opening it failed, and the end of the phase is signaled once.
\<close>

theorem responder_teardown_once:
  "\<exists>w'. colo_process_incoming_thread w = Some w' \<and>
      filter teardown_event (new_events w w') =
        [Colo_release_ram_cache] @ (if return_path_ok w then [Fclose To_src_file] else []) @
        [Migration_incoming_exit_colo] \<and>
      suffix (responder_teardown (return_path_ok w)) (new_events w w')"
proof -
  from thread_shape[of w] obtain w' j n k rep where
    s: "colo_process_incoming_thread w = Some w'"
      "trace w' = trace w @ take j (responder_prelude (return_path_ok w) (sint (ram_cache_ret w))) @
        concat (replicate n responder_calls) @ take k responder_calls @ rep @
        responder_teardown (return_path_ok w)"
      "list_all is_report rep" by blast
  have "filter teardown_event (new_events w w') =
      filter teardown_event (responder_teardown (return_path_ok w))"
    using s(2) teardown_reports[OF s(3)]
    by (simp add: new_events_def filter_take_nil[OF teardown_calls(1)]
        filter_take_nil[OF teardown_calls(2)] teardown_concat)
  moreover have "suffix (responder_teardown (return_path_ok w)) (new_events w w')"
    using s(2) by (simp add: new_events_def suffix_def)
  ultimately show ?thesis using s(1)
    by (simp add: responder_teardown_def)
qed

theorem responder_teardown_once_witness:
  "\<exists>w'. colo_process_incoming_thread world_responder = Some w' \<and>
      filter teardown_event (new_events world_responder w') =
        [Colo_release_ram_cache, Fclose To_src_file, Migration_incoming_exit_colo]"
proof -
  have ok: "return_path_ok world_responder"
    by (simp add: world_responder_def world0_def)
  from responder_teardown_once[of world_responder] obtain w' where
    "colo_process_incoming_thread world_responder = Some w'"
    "filter teardown_event (new_events world_responder w') =
       [Colo_release_ram_cache] @
       (if return_path_ok world_responder then [Fclose To_src_file] else []) @
       [Migration_incoming_exit_colo]"
    by blast
  with ok show ?thesis by simp
qed

text \<open>
  Claim C9: whenever \<^verbatim>\<open>colo_wait_handle_cmd\<close> returns without an error it has set
  \<^verbatim>\<open>*checkpoint_request\<close> to 1, and it sets it to 0 only together with an error; so the
  \<^verbatim>\<open>assert(request)\<close> of the responder's loop, which runs only when no error was
  reported, never fails: no iteration leaves by the assertion, and neither the loop nor
  the thread ever aborts.
\<close>

theorem request_assertion_holds:
  "(colo_wait_handle_cmd f w = (request, err, w') \<longrightarrow>
      (err = None \<longrightarrow> request = Some 1) \<and> (request = Some 0 \<longrightarrow> err \<noteq> None)) \<and>
   fst (colo_incoming_iteration w) \<noteq> Iter_abort \<and>
   colo_incoming_loop w \<noteq> None \<and>
   colo_process_incoming_thread w \<noteq> None"
proof -
  have a: "colo_wait_handle_cmd f w = (request, err, w') \<longrightarrow>
      (err = None \<longrightarrow> request = Some 1) \<and> (request = Some 0 \<longrightarrow> err \<noteq> None)"
    by (auto simp: colo_wait_handle_cmd_def split: prod.splits option.splits if_splits)
  have b: "fst (colo_incoming_iteration w) \<noteq> Iter_abort"
  proof -
    obtain x v where it: "colo_incoming_iteration w = (x, v)"
      by (cases "colo_incoming_iteration w")
    from it show ?thesis by (cases rule: iteration_cases) (simp_all add: it)
  qed
  have c: "colo_incoming_loop w \<noteq> None" using incoming_loop_shape[of w] by auto
  have d: "colo_process_incoming_thread w \<noteq> None" using thread_shape[of w] by auto
  from a b c d show ?thesis by blast
qed

theorem request_assertion_holds_witness:
  "fst (snd (colo_wait_handle_cmd From_src_file world_responder)) = None \<and>
   fst (colo_wait_handle_cmd From_src_file world_responder) = Some 1 \<and>
   fst (colo_wait_handle_cmd From_src_file world_stray) = Some 0 \<and>
   fst (snd (colo_wait_handle_cmd From_src_file world_stray)) \<noteq> None"
proof -
  have a: "fst (snd (colo_wait_handle_cmd From_src_file world_responder)) = None"
    by (simp add: world_responder_def eval_defs cong: weak_congs)
  have b: "fst (colo_wait_handle_cmd From_src_file world_stray) = Some 0"
    by (simp add: world_stray_def eval_defs cong: weak_congs)
  have ea: "colo_wait_handle_cmd From_src_file world_responder =
      (fst (colo_wait_handle_cmd From_src_file world_responder), None,
       snd (snd (colo_wait_handle_cmd From_src_file world_responder)))"
    using a by (metis prod.collapse)
  have eb: "colo_wait_handle_cmd From_src_file world_stray =
      (Some 0, fst (snd (colo_wait_handle_cmd From_src_file world_stray)),
       snd (snd (colo_wait_handle_cmd From_src_file world_stray)))"
    using b by (metis prod.collapse)
  from request_assertion_holds[of From_src_file world_responder
      "fst (colo_wait_handle_cmd From_src_file world_responder)" None
      "snd (snd (colo_wait_handle_cmd From_src_file world_responder))"] ea
  have r1: "fst (colo_wait_handle_cmd From_src_file world_responder) = Some 1" by blast
  from request_assertion_holds[of From_src_file world_stray "Some 0"
      "fst (snd (colo_wait_handle_cmd From_src_file world_stray))"
      "snd (snd (colo_wait_handle_cmd From_src_file world_stray))"] eb
  have r2: "fst (snd (colo_wait_handle_cmd From_src_file world_stray)) \<noteq> None" by blast
  from a r1 b r2 show ?thesis by simp
qed

section \<open>The claims about the command channel\<close>

text \<open>
  Claim C7: for every command ordinal at or above \<^verbatim>\<open>COLO_MESSAGE__MAX\<close>,
  \<^verbatim>\<open>colo_put_cmd\<close> fails with the invalid-command error before any I/O (the world it
  leaves is the world it was given: nothing is written, nothing is flushed);
  \<^verbatim>\<open>colo_get_cmd\<close> that has read such an ordinal without a transport error fails with
  the invalid-command error and still returns the ordinal; and \<^verbatim>\<open>colo_get_cmd\<close> fails
  with the transport error when the channel reports a failure after the read, again
  returning what it read. The errno of the transport error is \<^verbatim>\<open>-ret\<close> computed on a
  32-bit \<^verbatim>\<open>int\<close>: the negation of the error of the channel, except that the negation
  of \<^verbatim>\<open>INT_MIN\<close> is \<^verbatim>\<open>INT_MIN\<close>.
\<close>

theorem cmd_range_rejection:
  "(COLO_MESSAGE__MAX \<le> cmd \<longrightarrow>
      colo_put_cmd f cmd w =
        (Some (Error_setg ''%s: Invalid cmd'' [Arg_s ''colo_put_cmd'']), w)) \<and>
   (qemu_get_be32 f w = (v, w1) \<and> \<not> qemu_file_get_error f w1 < 0 \<and> COLO_MESSAGE__MAX \<le> v \<longrightarrow>
      colo_get_cmd f w =
        (v, Some (Error_setg ''%s: Invalid cmd'' [Arg_s ''colo_get_cmd'']), w1)) \<and>
   (qemu_get_be32 f w = (v, w1) \<and> qemu_file_get_error f w1 < 0 \<longrightarrow>
      colo_get_cmd f w =
        (v, Some (Error_setg_errno (c_int_neg (qemu_file_get_error f w1))
                    ''Can't get COLO command'' []),
         w1) \<and>
      c_int_neg (qemu_file_get_error f w1) =
        (if qemu_file_get_error f w1 = - 2147483648 then - 2147483648
         else - qemu_file_get_error f w1))"
proof -
  have neg: "c_int_neg (sint x) = (if sint x = - 2147483648 then - 2147483648 else - sint x)"
    for x :: "32 word"
  proof -
    have b: "- 2147483648 \<le> sint x" "sint x < 2147483648"
      using sint_ge[of x] sint_lt[of x] by simp_all
    have s: "c_int_neg (sint x) = signed_take_bit 31 (- sint x)"
      by (simp add: c_int_neg_def sint_word_ariths)
    show ?thesis
    proof (cases "sint x = - 2147483648")
      case True
      then show ?thesis by (simp add: c_int_neg_def)
    next
      case False
      have "signed_take_bit 31 (- sint x) = - sint x"
        using b False by (intro signed_take_bit_int_eq_self) simp_all
      then show ?thesis using False by (simp add: s)
    qed
  qed
  show ?thesis
    using neg[of "last_error (files w1 f)"]
    by (auto simp: colo_put_cmd_def colo_get_cmd_def qemu_file_get_error_def)
qed

theorem cmd_range_rejection_witness:
  "COLO_MESSAGE__MAX \<le> 9 \<and>
   colo_put_cmd To_dst_file 9 world0 =
     (Some (Error_setg ''%s: Invalid cmd'' [Arg_s ''colo_put_cmd'']), world0) \<and>
   fst (colo_get_cmd From_dst_file world_ordinal9) = 9 \<and>
   fst (snd (colo_get_cmd From_dst_file world_ordinal9)) =
     Some (Error_setg ''%s: Invalid cmd'' [Arg_s ''colo_get_cmd'']) \<and>
   fst (snd (colo_get_cmd From_dst_file world0)) =
     Some (Error_setg_errno 5 ''Can't get COLO command'' []) \<and>
   fst (snd (colo_get_cmd From_dst_file world_int_min)) =
     Some (Error_setg_errno (- 2147483648) ''Can't get COLO command'' [])"
proof -
  have m: "COLO_MESSAGE__MAX \<le> 9" by (simp add: msg_defs)
  have g9: "qemu_get_be32 From_dst_file world_ordinal9 =
      (9, snd (qemu_get_be32 From_dst_file world_ordinal9))"
    "\<not> qemu_file_get_error From_dst_file (snd (qemu_get_be32 From_dst_file world_ordinal9)) < 0"
    by (simp_all add: world_ordinal9_def eval_defs cong: weak_congs)
  have g0: "qemu_get_be32 From_dst_file world0 = (0, snd (qemu_get_be32 From_dst_file world0))"
    "qemu_file_get_error From_dst_file (snd (qemu_get_be32 From_dst_file world0)) < 0"
    "qemu_file_get_error From_dst_file (snd (qemu_get_be32 From_dst_file world0)) = - 5"
    by (simp_all add: eval_defs cong: weak_congs)
  have gm: "qemu_get_be32 From_dst_file world_int_min =
      (0, snd (qemu_get_be32 From_dst_file world_int_min))"
    "qemu_file_get_error From_dst_file (snd (qemu_get_be32 From_dst_file world_int_min)) < 0"
    "qemu_file_get_error From_dst_file (snd (qemu_get_be32 From_dst_file world_int_min)) =
       - 2147483648"
    by (simp_all add: world_int_min_def eval_defs cong: weak_congs)
  from cmd_range_rejection[of 9 To_dst_file world0] m
  have r1: "colo_put_cmd To_dst_file 9 world0 =
     (Some (Error_setg ''%s: Invalid cmd'' [Arg_s ''colo_put_cmd'']), world0)" by blast
  from cmd_range_rejection[of 9 From_dst_file world_ordinal9 9
      "snd (qemu_get_be32 From_dst_file world_ordinal9)"] g9 m
  have r2: "colo_get_cmd From_dst_file world_ordinal9 =
      (9, Some (Error_setg ''%s: Invalid cmd'' [Arg_s ''colo_get_cmd'']),
       snd (qemu_get_be32 From_dst_file world_ordinal9))" by blast
  from cmd_range_rejection[of 9 From_dst_file world0 0
      "snd (qemu_get_be32 From_dst_file world0)"] g0(1,2)
  have "colo_get_cmd From_dst_file world0 =
      (0, Some (Error_setg_errno
          (c_int_neg (qemu_file_get_error From_dst_file (snd (qemu_get_be32 From_dst_file world0))))
          ''Can't get COLO command'' []),
       snd (qemu_get_be32 From_dst_file world0))"
    "c_int_neg (qemu_file_get_error From_dst_file (snd (qemu_get_be32 From_dst_file world0))) =
       (if qemu_file_get_error From_dst_file (snd (qemu_get_be32 From_dst_file world0)) =
           - 2147483648
        then - 2147483648
        else - qemu_file_get_error From_dst_file (snd (qemu_get_be32 From_dst_file world0)))"
    by blast+
  then have r3: "fst (snd (colo_get_cmd From_dst_file world0)) =
     Some (Error_setg_errno 5 ''Can't get COLO command'' [])"
    by (simp add: g0(3))
  from cmd_range_rejection[of 9 From_dst_file world_int_min 0
      "snd (qemu_get_be32 From_dst_file world_int_min)"] gm(1,2)
  have "colo_get_cmd From_dst_file world_int_min =
      (0, Some (Error_setg_errno
          (c_int_neg (qemu_file_get_error From_dst_file
             (snd (qemu_get_be32 From_dst_file world_int_min))))
          ''Can't get COLO command'' []),
       snd (qemu_get_be32 From_dst_file world_int_min))"
    "c_int_neg (qemu_file_get_error From_dst_file
        (snd (qemu_get_be32 From_dst_file world_int_min))) =
       (if qemu_file_get_error From_dst_file (snd (qemu_get_be32 From_dst_file world_int_min)) =
           - 2147483648
        then - 2147483648
        else - qemu_file_get_error From_dst_file
                 (snd (qemu_get_be32 From_dst_file world_int_min)))"
    by blast+
  then have r4: "fst (snd (colo_get_cmd From_dst_file world_int_min)) =
     Some (Error_setg_errno (- 2147483648) ''Can't get COLO command'' [])"
    by (simp add: gm(3))
  from m r1 r2 r3 r4 show ?thesis by simp
qed

text \<open>
  Claim C8: \<^verbatim>\<open>colo_get_check_cmd\<close> propagates the error of \<^verbatim>\<open>colo_get_cmd\<close>, and when
  the command \<open>G\<close> it decoded differs from the expected \<open>E\<close> it fails with an error that
  reports \<open>E\<close> as the expected command and \<open>G\<close> as the received one. The code passes the
  two arguments to the format \<^verbatim>\<open>"Unexpected COLO command %d, expected %d"\<close> in the
  other order. In \<open>world_request_for_reply\<close> the primary expects \<^verbatim>\<open>CHECKPOINT_REPLY\<close>
  and the peer sends \<^verbatim>\<open>CHECKPOINT_REQUEST\<close>: the error names the reply as the
  unexpected command and the request as the expected one.
\<close>

theorem mismatch_report_swapped:
  "fst (colo_get_check_cmd From_dst_file COLO_MESSAGE_CHECKPOINT_REPLY world_request_for_reply) =
     Some (Error_setg ''Unexpected COLO command %d, expected %d''
             [Arg_d COLO_MESSAGE_CHECKPOINT_REPLY, Arg_d COLO_MESSAGE_CHECKPOINT_REQUEST]) \<and>
   fst (colo_get_cmd From_dst_file world_request_for_reply) = COLO_MESSAGE_CHECKPOINT_REQUEST"
  by (simp add: world_request_for_reply_def eval_defs cong: weak_congs)

section \<open>The claim about the resources of the primary's phase\<close>




end
